theory Spec2Isabelle
  imports Complex_Main "HOL-Library.Word"
begin

section \<open>The on-ledger recorder: contracts/RewardExecutor.sol\<close>

text \<open>
  The contract keeps an owner, the replay-protection mapping and (as the ledger's log)
  the events it has emitted. A \<open>require\<close> that fails reverts the call: the function
  returns \<open>Inl\<close> with the reason and the caller keeps the state it had.
\<close>

type_synonym address = "160 word"
type_synonym bytes32 = "256 word"
type_synonym uint256 = "256 word"

record RewardExecuted =
  ev_attestationTxHash :: bytes32
  ev_payloadHash :: bytes32
  ev_slotKey :: bytes32
  ev_participant :: address
  ev_shiftedKw :: uint256

record RewardExecutor =
  owner :: address
  executedAttestations :: "bytes32 \<Rightarrow> bool"
  emitted :: "RewardExecuted list"

datatype revert = NotOwner | OwnerIsZero | AlreadyExecuted

text \<open>\<open>constructor(address _owner)\<close>: storage starts zeroed, so the mapping is all false.\<close>

definition constructor :: "address \<Rightarrow> revert + RewardExecutor" where
  "constructor new_owner =
     (if new_owner = 0 then Inl OwnerIsZero
      else Inr \<lparr>owner = new_owner, executedAttestations = (\<lambda>_. False), emitted = []\<rparr>)"

text \<open>\<open>setOwner\<close>: the modifier \<open>onlyOwner\<close> runs first, then the zero check.\<close>

definition setOwner :: "address \<Rightarrow> address \<Rightarrow> RewardExecutor \<Rightarrow> revert + RewardExecutor" where
  "setOwner sender new_owner s =
     (if sender \<noteq> owner s then Inl NotOwner
      else if new_owner = 0 then Inl OwnerIsZero
      else Inr (s\<lparr>owner := new_owner\<rparr>))"

text \<open>\<open>executeReward\<close>: \<open>onlyOwner\<close>, the replay guard, the write, the event.\<close>

definition executeReward ::
  "address \<Rightarrow> bytes32 \<Rightarrow> bytes32 \<Rightarrow> bytes32 \<Rightarrow> address \<Rightarrow> uint256 \<Rightarrow> RewardExecutor
     \<Rightarrow> revert + RewardExecutor" where
  "executeReward sender attestationTxHash payloadHash slotKey participant shiftedKw s =
     (if sender \<noteq> owner s then Inl NotOwner
      else if executedAttestations s attestationTxHash then Inl AlreadyExecuted
      else Inr (s\<lparr>executedAttestations := (executedAttestations s)(attestationTxHash := True),
                  emitted := emitted s @
                    [\<lparr>ev_attestationTxHash = attestationTxHash, ev_payloadHash = payloadHash,
                      ev_slotKey = slotKey, ev_participant = participant,
                      ev_shiftedKw = shiftedKw\<rparr>]\<rparr>))"

text \<open>
  The ledger runs transactions one after the other, whatever the order in which clients
  sent them: concurrent or retried attempts reach the contract as some sequence of calls.
  A reverted transaction leaves the storage and the log as they were.
\<close>

datatype call =
    SetOwner address
  | ExecuteReward bytes32 bytes32 bytes32 address uint256

fun dispatch :: "address \<Rightarrow> call \<Rightarrow> RewardExecutor \<Rightarrow> revert + RewardExecutor" where
  "dispatch sender (SetOwner a) s = setOwner sender a s"
| "dispatch sender (ExecuteReward h p k a w) s = executeReward sender h p k a w s"

fun transact :: "RewardExecutor \<Rightarrow> address \<times> call \<Rightarrow> RewardExecutor" where
  "transact s (sender, c) = (case dispatch sender c s of Inl _ \<Rightarrow> s | Inr s' \<Rightarrow> s')"

definition transactAll :: "RewardExecutor \<Rightarrow> (address \<times> call) list \<Rightarrow> RewardExecutor" where
  "transactAll s txs = foldl transact s txs"

text \<open>The reward records of one attestation: the events emitted for its hash.\<close>

definition recordsFor :: "bytes32 \<Rightarrow> RewardExecutor \<Rightarrow> RewardExecuted list" where
  "recordsFor h s = filter (\<lambda>e. ev_attestationTxHash e = h) (emitted s)"

text \<open>What links the mapping to the log in every state the contract can reach.\<close>

definition consistent :: "RewardExecutor \<Rightarrow> bool" where
  "consistent s \<longleftrightarrow>
     (\<forall>h. length (recordsFor h s) = (if executedAttestations s h then 1 else 0))"

section \<open>JavaScript values used by the scripts\<close>

text \<open>
  A JavaScript number is a double: \<open>NaN\<close>, an infinity, or a finite value, which is a
  rational. Block heights, timestamps and confirmation counts are whole numbers far below
  \<open>2^53\<close> and are kept as \<open>int\<close>; only the configured confirmation requirement, which is
  \<open>Number\<close> of an arbitrary text, needs the full type. Comparisons with \<open>NaN\<close> are false.
\<close>

datatype jsnum = NaN | NegInf | Fin rat | PosInf

fun js_less :: "jsnum \<Rightarrow> jsnum \<Rightarrow> bool" where
  "js_less NaN _ = False"
| "js_less _ NaN = False"
| "js_less _ NegInf = False"
| "js_less NegInf _ = True"
| "js_less PosInf _ = False"
| "js_less _ PosInf = True"
| "js_less (Fin a) (Fin b) = (a < b)"

fun js_ge :: "jsnum \<Rightarrow> jsnum \<Rightarrow> bool" where
  "js_ge NaN _ = False"
| "js_ge _ NaN = False"
| "js_ge a b = (\<not> js_less a b)"

definition jsInt :: "int \<Rightarrow> jsnum" where
  "jsInt i = Fin (of_int i)"

text \<open>
  A value that is read by truthiness and may be \<open>null\<close> or \<open>undefined\<close>: \<open>None\<close> is falsy.
\<close>

definition truthy :: "bool option \<Rightarrow> bool" where
  "truthy v = (v = Some True)"

text \<open>
  Texts are ASCII here. \<open>toLowerCase\<close> and \<open>trim\<close> on ASCII; for a text, the empty one
  is the only falsy value, so \<open>a || b\<close> takes \<open>b\<close> when \<open>a\<close> is absent or empty.
\<close>

definition lowerChar :: "char \<Rightarrow> char" where
  "lowerChar c =
     (case map_of (zip ''ABCDEFGHIJKLMNOPQRSTUVWXYZ'' ''abcdefghijklmnopqrstuvwxyz'') c of
        None \<Rightarrow> c
      | Some l \<Rightarrow> l)"

definition toLowerCase :: "string \<Rightarrow> string" where
  "toLowerCase s = map lowerChar s"

definition isSpace :: "char \<Rightarrow> bool" where
  "isSpace c = ((of_char c :: nat) \<in> {9, 10, 11, 12, 13, 32})"

definition trim :: "string \<Rightarrow> string" where
  "trim s = rev (dropWhile isSpace (rev (dropWhile isSpace s)))"

definition nonEmpty :: "string option \<Rightarrow> string option" where
  "nonEmpty v = (case v of None \<Rightarrow> None | Some s \<Rightarrow> if s = [] then None else Some s)"

definition orElse :: "string option \<Rightarrow> string \<Rightarrow> string" where
  "orElse v d = (case nonEmpty v of None \<Rightarrow> d | Some s \<Rightarrow> s)"

text \<open>\<open>String.prototype.indexOf\<close>, \<open>slice\<close> from an index, and \<open>split\<close> on a character.\<close>

definition startsWith :: "string \<Rightarrow> string \<Rightarrow> bool" where
  "startsWith s m = (take (length m) s = m)"

fun indexOf :: "string \<Rightarrow> string \<Rightarrow> nat option" where
  "indexOf [] m = (if m = [] then Some 0 else None)"
| "indexOf (c # cs) m =
     (if startsWith (c # cs) m then Some 0 else map_option Suc (indexOf cs m))"

definition slice :: "string \<Rightarrow> nat \<Rightarrow> string" where
  "slice s i = drop i s"

fun splitStr :: "string \<Rightarrow> char \<Rightarrow> string list" where
  "splitStr [] sep = [[]]"
| "splitStr (c # cs) sep =
     (if c = sep then [] # splitStr cs sep
      else (case splitStr cs sep of [] \<Rightarrow> [[c]] | w # ws \<Rightarrow> (c # w) # ws))"

datatype json =
    JNull
  | JBool bool
  | JNumber rat
  | JString string
  | JArray "json list"
  | JObject "(string \<times> json) list"

text \<open>
  What the language and its standard modules compute and the scripts only call:
  \<open>Number\<close> and \<open>BigInt\<close> of a text, \<open>JSON.parse\<close>, \<open>Date.parse\<close> (milliseconds, or
  \<open>None\<close> for \<open>NaN\<close>) and the SHA-256 digest as lower-case hex. \<open>None\<close> from \<open>BigInt\<close>
  or \<open>JSON_parse\<close> is the exception they throw.
\<close>

record js =
  Number :: "string \<Rightarrow> jsnum"
  BigInt :: "string \<Rightarrow> int option"
  JSON_parse :: "string \<Rightarrow> json option"
  Date_parse :: "string \<Rightarrow> int option"
  sha256 :: "string \<Rightarrow> string"

type_synonym env = "string \<rightharpoonup> string"

datatype callError = DecodeMismatch | NetworkError | CallReverted

datatype error =
    NotRealMode string
  | MissingEnv string
  | LibraryThrew string
  | TxHashMissing
  | ChainIdMismatch int int
  | TxOrReceiptNotFound string
  | TargetMismatch string string
  | DaProofFileMissing
  | DaProofPayloadNotFound
  | VerifyCallThrew callError
  | VerificationFailed
  | NotEnoughConfirmations int jsnum
  | HashOrTimestampInvalid
  | ArgsNotArray
  | RewardTxNotFound string
  | RewardTxNotConfirmed
  | LedgerRejected string

definition thenE :: "error + 'a \<Rightarrow> ('a \<Rightarrow> error + 'b) \<Rightarrow> error + 'b" where
  "thenE m f = (case m of Inl e \<Rightarrow> Inl e | Inr v \<Rightarrow> f v)"

definition orThrow :: "'a option \<Rightarrow> error \<Rightarrow> error + 'a" where
  "orThrow v e = (case v of None \<Rightarrow> Inl e | Some x \<Rightarrow> Inr x)"

definition mustEnv :: "env \<Rightarrow> string \<Rightarrow> error + string" where
  "mustEnv env name = orThrow (nonEmpty (env name)) (MissingEnv name)"

definition optionalEnv :: "env \<Rightarrow> string \<Rightarrow> string option" where
  "optionalEnv env name = nonEmpty (env name)"

section \<open>The mode selector: scripts/attestation\_mode.js\<close>

definition SIMULATION_VALUES :: "string list" where
  "SIMULATION_VALUES = [''1'', ''true'', ''yes'', ''on'', ''simulation'']"

definition REAL_VALUES :: "string list" where
  "REAL_VALUES = [''0'', ''false'', ''no'', ''off'', ''real'']"

definition parseBooleanLike :: "string option \<Rightarrow> bool option" where
  "parseBooleanLike v =
     (case v of
        None \<Rightarrow> None
      | Some s \<Rightarrow>
          (let normalized = toLowerCase (trim s) in
           if normalized \<in> set SIMULATION_VALUES then Some True
           else if normalized \<in> set REAL_VALUES then Some False
           else None))"

definition getAttestationMode :: "env \<Rightarrow> string" where
  "getAttestationMode env =
     (case parseBooleanLike (env ''USE_SIMULATION'') of
        Some True \<Rightarrow> ''simulation''
      | Some False \<Rightarrow> ''real''
      | None \<Rightarrow>
          (let mode = toLowerCase (trim (orElse (env ''ATTESTATION_MODE'') ''real'')) in
           if mode = ''simulation'' then ''simulation'' else ''real''))"

definition assertRealMode :: "string \<Rightarrow> env \<Rightarrow> error + unit" where
  "assertRealMode ctx env =
     (if getAttestationMode env \<noteq> ''real'' then Inl (NotRealMode ctx) else Inr ())"

section \<open>The policy evaluators: scripts/check\_attestation.js\<close>

definition DEFAULT_VERIFICATION_ADDRESS :: string where
  "DEFAULT_VERIFICATION_ADDRESS = ''0x906507E0B64bcD494Db73bd0459d1C667e14B933''"

definition DEFAULT_CONFIRMATIONS :: jsnum where
  "DEFAULT_CONFIRMATIONS = Fin 12"

text \<open>
  \<open>Number(process.env.CONFIRMATIONS || DEFAULT_CONFIRMATIONS)\<close>, written the same way in
  both scripts.
\<close>

definition confirmationsRequiredOf :: "js \<Rightarrow> env \<Rightarrow> jsnum" where
  "confirmationsRequiredOf lang env =
     (case nonEmpty (env ''CONFIRMATIONS'') of
        None \<Rightarrow> DEFAULT_CONFIRMATIONS
      | Some s \<Rightarrow> Number lang s)"

subsection \<open>\<open>parseRequestRange\<close>\<close>

record requestRange =
  startIso :: string
  endIso :: string
  startMs :: int
  endMs :: int
  valid :: bool

definition parseRequestRange :: "js \<Rightarrow> string \<Rightarrow> requestRange option" where
  "parseRequestRange lang url =
     (let marker = ''/intensity/'' in
      case indexOf url marker of
        None \<Rightarrow> None
      | Some idx \<Rightarrow>
          (let tail = slice url (idx + length marker);
               chunks = splitStr tail (CHR ''/'') in
           if length chunks < 2 then None
           else
             (case (Date_parse lang (chunks ! 0), Date_parse lang (chunks ! 1)) of
                (Some start, Some end') \<Rightarrow>
                  Some \<lparr>startIso = chunks ! 0, endIso = chunks ! 1,
                        startMs = start, endMs = end', valid = (end' > start)\<rparr>
              | _ \<Rightarrow> None)))"

subsection \<open>\<open>validatePayloadHash\<close>\<close>

text \<open>
  The arguments are the bytes of the API response when \<open>apiResponsePath\<close> is set and the
  file exists, the expected digest (\<open>EXPECTED_MIC\<close>, \<open>None\<close> for \<open>null\<close>) and the digest
  recorded in the submission file, if that file and its \<open>computedMic\<close> are there. The three
  comparison fields are \<open>null\<close> (\<open>None\<close>) until a comparison is made.
\<close>

record payloadHash =
  computedMic :: "string option"
  micMatchesExpected :: "bool option"
  micMatchesSubmission :: "bool option"
  payloadHashValid :: bool

definition validatePayloadHash ::
  "js \<Rightarrow> string option \<Rightarrow> string option \<Rightarrow> string option \<Rightarrow> payloadHash" where
  "validatePayloadHash lang apiResponse expectedMic submissionMic =
     (let computed = map_option (sha256 lang) apiResponse;
          matchesExpected =
            (case (computed, nonEmpty expectedMic) of
               (Some c, Some e) \<Rightarrow> Some (toLowerCase c = toLowerCase e)
             | _ \<Rightarrow> None);
          matchesSubmission =
            (case (computed, nonEmpty submissionMic) of
               (Some c, Some m) \<Rightarrow> Some (toLowerCase c = toLowerCase m)
             | _ \<Rightarrow> None)
      in \<lparr>computedMic = computed,
          micMatchesExpected = matchesExpected,
          micMatchesSubmission = matchesSubmission,
          payloadHashValid =
            (if matchesExpected = Some False \<or> matchesSubmission = Some False then False
             else True)\<rparr>)"

subsection \<open>The ledger client and the stored artifacts\<close>

text \<open>
  What \<open>ethers\<close> and the ledger answer. The read-only answers are values: the chain
  identifier, whether the transaction is known, its receipt, the chain height, block
  timestamps, the two verification view calls (an exception is \<open>Inl\<close>), fee data and the
  gas estimate (\<open>None\<close> when estimation throws). \<open>getAddress\<close>, \<open>encodeFunctionData\<close> and
  \<open>Wallet\<close> return \<open>None\<close> where the library throws.

  A contract method called through a signer, as at line 277 of the reward flow, is two
  requests of the library. It first has the ledger estimate the gas of the call from the
  signer's address (\<open>signerEstimateGas\<close>): the ledger runs the call on its current state
  without recording anything, and answers with the gas or, when the call would revert, with
  the rejection, which the library throws before anything is sent. Only then it broadcasts
  the signed transaction and waits for it (\<open>sendTransaction\<close>), the one state-changing
  call: from a signer, to an address, with call data, on the ledger state \<open>'l\<close>; it
  answers with the transaction hash and block number and the new ledger state, or with the
  failure of the mined transaction.
\<close>

record receipt =
  receiptTo :: "string option"
  receiptBlockNumber :: int

record feeData =
  maxFeePerGas :: "nat option"
  maxPriorityFeePerGas :: "nat option"

datatype abi = DEFAULT_REWARD_FUNCTION_ABI | LEGACY_FLEXDAO_FUNCTION_ABI | ParsedAbi json

record ('c, 'l) ethers =
  getAddress :: "string \<Rightarrow> string option"
  chainId :: int
  getTransaction :: "string \<Rightarrow> bool"
  getTransactionReceipt :: "string \<Rightarrow> receipt option"
  getBlockNumber :: int
  getBlockTimestamp :: "int \<Rightarrow> int option"
  verifyJsonApi :: "callError + bool"
  verifyWeb2Json :: "callError + bool"
  encodeFunctionData :: "abi \<Rightarrow> string \<Rightarrow> json list \<Rightarrow> 'c option"
  getFeeData :: feeData
  estimateGas :: "string \<Rightarrow> string option \<Rightarrow> 'c \<Rightarrow> nat option"
  Wallet :: "string \<Rightarrow> string option"
  signerEstimateGas :: "string \<Rightarrow> string \<Rightarrow> 'c \<Rightarrow> 'l \<Rightarrow> error + nat"
  sendTransaction :: "string \<Rightarrow> string \<Rightarrow> 'c \<Rightarrow> 'l \<Rightarrow> error + ((string \<times> int) \<times> 'l)"

text \<open>
  The artifacts of the acquisition stage, as found under the configured (or default)
  paths: the submission record, the DA proof and the API response; \<open>None\<close> when the file
  does not exist. Of the proof, the verifier reads the lower timestamp bound and the
  request URL; \<open>Unrecognised\<close> is a proof file in which \<open>extractDaProofPayload\<close> finds
  no payload.
\<close>

record submission =
  submissionTxHash :: "string option"
  submissionComputedMic :: "string option"

datatype daProofJson = Unrecognised | DaProof int string

record files =
  requestSubmission :: "submission option"
  daProof :: "daProofJson option"
  apiResponse :: "string option"

subsection \<open>The proof-validity call with its fallback\<close>

text \<open>
  Lines 361 to 384 of \<open>checkAttestation\<close>: the \<open>verifyJsonApi\<close> call in a \<open>try\<close>; in its
  \<open>catch\<close>, the \<open>verifyWeb2Json\<close> call in a second \<open>try\<close>, whose \<open>catch\<close> throws the
  first error. The result carries \<open>verificationPassed\<close> and \<open>verificationFunction\<close>;
  beside it, the calls that were made, in order.
\<close>

definition verifyProof :: "('c, 'l) ethers \<Rightarrow> (error + (bool \<times> string)) \<times> string list" where
  "verifyProof eth =
     (case verifyJsonApi eth of
        Inr passed \<Rightarrow> (Inr (passed, ''verifyJsonApi''), [''verifyJsonApi''])
      | Inl err \<Rightarrow>
          (case verifyWeb2Json eth of
             Inr passed \<Rightarrow>
               (Inr (passed, ''verifyWeb2Json''), [''verifyJsonApi'', ''verifyWeb2Json''])
           | Inl fallbackErr \<Rightarrow>
               (Inl (VerifyCallThrew err), [''verifyJsonApi'', ''verifyWeb2Json''])))"

subsection \<open>\<open>checkAttestation\<close>\<close>

text \<open>
  The four verdict fields are JavaScript values that the reward flow tests with \<open>!\<close>;
  they are typed \<open>bool option\<close>, with \<open>None\<close> for \<open>null\<close>, so that the flow's test is
  defined on every value it can be handed. \<open>checkAttestation\<close> itself always stores
  booleans. The log counts, the request fee and the report file written at the end are
  diagnostics and are left out, as are the \<open>console.log\<close> lines.
\<close>

record attestation =
  txHash :: string
  blockNumber :: int
  confirmationsRequired :: jsnum
  confirmations :: int
  confirmed :: "bool option"
  verificationPassed :: "bool option"
  verificationFunction :: string
  attPayloadHashValid :: "bool option"
  timestampValid :: "bool option"
  attPayloadHash :: payloadHash
  lowestUsedTimestamp :: int
  blockTimestamp :: int
  requestTimestampRange :: "requestRange option"

definition confirmationsOf :: "int \<Rightarrow> int \<Rightarrow> int" where
  "confirmationsOf latestBlock blockNo = latestBlock - blockNo + 1"

definition confirmedOf :: "int \<Rightarrow> jsnum \<Rightarrow> bool" where
  "confirmedOf confs required = js_ge (jsInt confs) required"

definition timestampValidOf :: "int \<Rightarrow> int \<Rightarrow> requestRange option \<Rightarrow> bool" where
  "timestampValidOf lowest blockTs timestampRange =
     ((lowest = 0 \<or> blockTs \<ge> lowest) \<and>
      (case timestampRange of None \<Rightarrow> True | Some r \<Rightarrow> valid r))"

definition resolveTxHash :: "env \<Rightarrow> files \<Rightarrow> string option" where
  "resolveTxHash env fs =
     (case nonEmpty (env ''ATTESTATION_TX_HASH'') of
        Some h \<Rightarrow> Some h
      | None \<Rightarrow>
          (case requestSubmission fs of
             None \<Rightarrow> None
           | Some requestJson \<Rightarrow> nonEmpty (submissionTxHash requestJson)))"

text \<open>
  \<open>extractDaProofPayload\<close> followed by \<open>buildVerifyJsonApiProof\<close>: the lower timestamp
  bound and the request URL of the proof, or the exception of the former.
\<close>

fun proofRequestOf :: "daProofJson \<Rightarrow> error + int \<times> string" where
  "proofRequestOf Unrecognised = Inl DaProofPayloadNotFound"
| "proofRequestOf (DaProof lowest url) = Inr (lowest, url)"

definition checkAttestation ::
  "js \<Rightarrow> ('c, 'l) ethers \<Rightarrow> env \<Rightarrow> files \<Rightarrow> error + attestation" where
  "checkAttestation lang eth env fs =
     thenE (assertRealMode ''check_attestation.js'' env) (\<lambda>_.
     thenE (mustEnv env ''FLARE_RPC_URL'') (\<lambda>rpcUrl.
     thenE (mustEnv env ''FLARE_CHAIN_ID'') (\<lambda>chainIdText.
     thenE (orThrow (BigInt lang chainIdText) (LibraryThrew ''BigInt'')) (\<lambda>expectedChainId.
     thenE (mustEnv env ''FDC_ATTESTATION_CONTRACT'') (\<lambda>contractText.
     thenE (orThrow (getAddress eth contractText) (LibraryThrew ''getAddress''))
       (\<lambda>fdcAttestationContract.
     thenE (orThrow (getAddress eth (orElse (env ''FDC_VERIFICATION_CONTRACT'')
              DEFAULT_VERIFICATION_ADDRESS)) (LibraryThrew ''getAddress''))
       (\<lambda>verificationAddress.
     let required = confirmationsRequiredOf lang env in
     thenE (orThrow (resolveTxHash env fs) TxHashMissing) (\<lambda>hash.
     let expectedMic = nonEmpty (env ''EXPECTED_MIC'') in
     if chainId eth \<noteq> expectedChainId
     then Inl (ChainIdMismatch expectedChainId (chainId eth))
     else
     thenE (if getTransaction eth hash
            then orThrow (getTransactionReceipt eth hash) (TxOrReceiptNotFound hash)
            else Inl (TxOrReceiptNotFound hash)) (\<lambda>rcpt.
     thenE (orThrow (case receiptTo rcpt of None \<Rightarrow> None | Some t \<Rightarrow> getAddress eth t)
              (LibraryThrew ''getAddress'')) (\<lambda>rcptTo.
     if rcptTo \<noteq> fdcAttestationContract
     then Inl (TargetMismatch fdcAttestationContract rcptTo)
     else
     let latestBlock = getBlockNumber eth;
         confs = confirmationsOf latestBlock (receiptBlockNumber rcpt);
         isConfirmed = confirmedOf confs required in
     thenE (orThrow (daProof fs) DaProofFileMissing) (\<lambda>daProofJson.
     thenE (proofRequestOf daProofJson) (\<lambda>(lowest, url).
     thenE (fst (verifyProof eth)) (\<lambda>(passed, fnName).
     let submissionMic =
           (case requestSubmission fs of
              None \<Rightarrow> None
            | Some submissionData \<Rightarrow> submissionComputedMic submissionData);
         hashCheck = validatePayloadHash lang (apiResponse fs) expectedMic submissionMic in
     thenE (orThrow (getBlockTimestamp eth (receiptBlockNumber rcpt)) (LibraryThrew ''getBlock''))
       (\<lambda>blockTs.
     let timestampRange = parseRequestRange lang url;
         tsValid = timestampValidOf lowest blockTs timestampRange in
     Inr \<lparr>txHash = hash,
          blockNumber = receiptBlockNumber rcpt,
          confirmationsRequired = required,
          confirmations = confs,
          confirmed = Some isConfirmed,
          verificationPassed = Some passed,
          verificationFunction = fnName,
          attPayloadHashValid = Some (payloadHashValid hashCheck),
          timestampValid = Some tsValid,
          attPayloadHash = hashCheck,
          lowestUsedTimestamp = lowest,
          blockTimestamp = blockTs,
          requestTimestampRange = timestampRange\<rparr>))))))))))))))"

section \<open>The reward execution gate: scripts/run\_reward\_flow.js\<close>

text \<open>
  The ledger as the flow sees it: its state, and beside it the transactions the flow has
  broadcast to it (signer, target, call data), whether they succeeded once mined or not. A
  call that the gas estimation refuses is never broadcast and is not in the list. The second
  component is bookkeeping of the model; the scripts do not keep it.
\<close>

record ('c, 'l) chain =
  ledger :: 'l
  submitted :: "(string \<times> string \<times> 'c) list"

datatype 'c outcome =
    DryRunOutcome attestation "nat option" nat string string 'c
  | ExecuteOutcome attestation "string option" "int option"

fun dryRunOf :: "'c outcome \<Rightarrow> bool" where
  "dryRunOf (DryRunOutcome _ _ _ _ _ _) = True"
| "dryRunOf (ExecuteOutcome _ _ _) = False"

text \<open>Line 113: \<open>process.env.DRY_RUN !== "0"\<close>.\<close>

definition dryRunFlag :: "env \<Rightarrow> bool" where
  "dryRunFlag env = (env ''DRY_RUN'' \<noteq> Some ''0'')"

definition signerModeOf :: "env \<Rightarrow> string" where
  "signerModeOf env = toLowerCase (trim (orElse (env ''SIGNER_MODE'') ''private_key''))"

text \<open>Lines 117 to 127: the three tests on the attestation, in order.\<close>

definition rewardGate :: "attestation \<Rightarrow> jsnum \<Rightarrow> error + unit" where
  "rewardGate att required =
     (if \<not> truthy (verificationPassed att) then Inl VerificationFailed
      else if \<not> truthy (confirmed att) \<or> js_less (jsInt (confirmations att)) required
      then Inl (NotEnoughConfirmations (confirmations att) required)
      else if \<not> truthy (attPayloadHashValid att) \<or> \<not> truthy (timestampValid att)
      then Inl HashOrTimestampInvalid
      else Inr ())"

text \<open>
  Lines 129 to 172: everything the flow resolves before it branches on the mode. All of
  it reads; nothing here is handed the ledger state.
\<close>

record 'c prepared =
  prepAttestation :: attestation
  prepExpectedChainId :: int
  prepRewardContractAddress :: string
  prepFunctionName :: string
  prepFunctionAbi :: abi
  prepFunctionArgs :: "json list"
  prepCalldata :: 'c
  prepFeeData :: feeData
  prepEstimateFrom :: "string option"
  prepEstimatedGas :: "nat option"

definition functionAbiOf :: "js \<Rightarrow> env \<Rightarrow> error + abi" where
  "functionAbiOf lang env =
     (case nonEmpty (env ''REWARD_FUNCTION_ABI_JSON'') of
        Some text \<Rightarrow>
          thenE (orThrow (JSON_parse lang text) (LibraryThrew ''JSON.parse'')) (\<lambda>j. Inr (ParsedAbi j))
      | None \<Rightarrow>
          if env ''REWARD_FUNCTION_NAME'' = Some ''submitFlexEvent''
          then Inr LEGACY_FLEXDAO_FUNCTION_ABI
          else Inr DEFAULT_REWARD_FUNCTION_ABI)"

definition functionArgsOf :: "js \<Rightarrow> env \<Rightarrow> error + json list" where
  "functionArgsOf lang env =
     (case nonEmpty (env ''REWARD_FUNCTION_ARGS_JSON'') of
        None \<Rightarrow> Inl ArgsNotArray
      | Some text \<Rightarrow>
          thenE (orThrow (JSON_parse lang text) (LibraryThrew ''JSON.parse'')) (\<lambda>j.
          case j of JArray args \<Rightarrow> Inr args | _ \<Rightarrow> Inl ArgsNotArray))"

definition prepareReward ::
  "js \<Rightarrow> ('c, 'l) ethers \<Rightarrow> env \<Rightarrow> files \<Rightarrow> error + 'c prepared" where
  "prepareReward lang eth env fs =
     thenE (assertRealMode ''run_reward_flow.js'' env) (\<lambda>_.
     let required = confirmationsRequiredOf lang env in
     thenE (checkAttestation lang eth env fs) (\<lambda>att.
     thenE (rewardGate att required) (\<lambda>_.
     thenE (mustEnv env ''FLARE_RPC_URL'') (\<lambda>rpcUrl.
     thenE (mustEnv env ''FLARE_CHAIN_ID'') (\<lambda>chainIdText.
     thenE (orThrow (BigInt lang chainIdText) (LibraryThrew ''BigInt'')) (\<lambda>expectedChainId.
     thenE (mustEnv env ''REWARD_CONTRACT_ADDRESS'') (\<lambda>rewardText.
     thenE (orThrow (getAddress eth rewardText) (LibraryThrew ''getAddress''))
       (\<lambda>rewardContractAddress.
     let functionName = orElse (env ''REWARD_FUNCTION_NAME'') ''executeReward'' in
     thenE (functionAbiOf lang env) (\<lambda>functionAbi.
     thenE (functionArgsOf lang env) (\<lambda>functionArgs.
     if chainId eth \<noteq> expectedChainId
     then Inl (ChainIdMismatch expectedChainId (chainId eth))
     else
     thenE (orThrow (encodeFunctionData eth functionAbi functionName functionArgs)
              (LibraryThrew ''encodeFunctionData'')) (\<lambda>calldata.
     thenE (case optionalEnv env ''SIGNER_ADDRESS'' of
              None \<Rightarrow> Inr None
            | Some a \<Rightarrow>
                thenE (orThrow (getAddress eth a) (LibraryThrew ''getAddress''))
                  (\<lambda>n. Inr (Some n))) (\<lambda>estimateFrom.
     Inr \<lparr>prepAttestation = att,
          prepExpectedChainId = expectedChainId,
          prepRewardContractAddress = rewardContractAddress,
          prepFunctionName = functionName,
          prepFunctionAbi = functionAbi,
          prepFunctionArgs = functionArgs,
          prepCalldata = calldata,
          prepFeeData = getFeeData eth,
          prepEstimateFrom = estimateFrom,
          prepEstimatedGas = estimateGas eth rewardContractAddress estimateFrom calldata\<rparr>
     ))))))))))))"

text \<open>
  Lines 174 to 289: the dry run, the MetaMask mode (which only prints a request or reads
  the receipt of a transaction the user sent), and the private-key mode, whose contract
  call at line 277 is the flow's only state-changing call: the gas estimation for the
  signer, which throws and sends nothing when the call would revert, then the broadcast and
  \<open>tx.wait(1)\<close>.
\<close>

definition finishReward ::
  "js \<Rightarrow> ('c, 'l) ethers \<Rightarrow> env \<Rightarrow> 'c prepared \<Rightarrow> ('c, 'l) chain
     \<Rightarrow> (error + 'c outcome) \<times> ('c, 'l) chain" where
  "finishReward lang eth env p w =
     (if dryRunFlag env then
        (Inr (DryRunOutcome (prepAttestation p) (prepEstimatedGas p)
                (case maxFeePerGas (prepFeeData p) of None \<Rightarrow> 0 | Some f \<Rightarrow> f)
                (prepRewardContractAddress p) (prepFunctionName p) (prepCalldata p)), w)
      else if signerModeOf env = ''metamask'' then
        (case optionalEnv env ''REWARD_TX_HASH'' of
           None \<Rightarrow> (Inr (ExecuteOutcome (prepAttestation p) None None), w)
         | Some rewardTxHash \<Rightarrow>
             (case getTransactionReceipt eth rewardTxHash of
                None \<Rightarrow> (Inl (RewardTxNotFound rewardTxHash), w)
              | Some rcpt \<Rightarrow>
                  (let latestBlock = getBlockNumber eth;
                       confs = latestBlock - receiptBlockNumber rcpt + 1;
                       isConfirmed = js_ge (jsInt confs) (confirmationsRequiredOf lang env) in
                   if \<not> isConfirmed then (Inl RewardTxNotConfirmed, w)
                   else (Inr (ExecuteOutcome (prepAttestation p) (Some rewardTxHash)
                                (Some (receiptBlockNumber rcpt))), w))))
      else
        (case mustEnv env ''FLARE_SIGNER_KEY'' of
           Inl e \<Rightarrow> (Inl e, w)
         | Inr signerKey \<Rightarrow>
             (case Wallet eth signerKey of
                None \<Rightarrow> (Inl (LibraryThrew ''Wallet''), w)
              | Some signer \<Rightarrow>
                  (case signerEstimateGas eth signer (prepRewardContractAddress p)
                          (prepCalldata p) (ledger w) of
                     Inl e \<Rightarrow> (Inl e, w)
                   | Inr gasLimit \<Rightarrow>
                       (let request = (signer, prepRewardContractAddress p, prepCalldata p);
                            w' = w\<lparr>submitted := submitted w @ [request]\<rparr> in
                        case sendTransaction eth signer (prepRewardContractAddress p)
                               (prepCalldata p) (ledger w) of
                          Inl e \<Rightarrow> (Inl e, w')
                        | Inr ((hash, blockNo), l') \<Rightarrow>
                            (Inr (ExecuteOutcome (prepAttestation p) (Some hash)
                                    (Some blockNo)),
                             w'\<lparr>ledger := l'\<rparr>))))))"

definition runRewardFlow ::
  "js \<Rightarrow> ('c, 'l) ethers \<Rightarrow> env \<Rightarrow> files \<Rightarrow> ('c, 'l) chain
     \<Rightarrow> (error + 'c outcome) \<times> ('c, 'l) chain" where
  "runRewardFlow lang eth env fs w =
     (case prepareReward lang eth env fs of
        Inl e \<Rightarrow> (Inl e, w)
      | Inr p \<Rightarrow> finishReward lang eth env p w)"

text \<open>
  The ledger behind \<open>signerEstimateGas\<close> and \<open>sendTransaction\<close> when the reward
  contract is the \<open>RewardExecutor\<close> above: the call data is a call of that contract, the
  signer's address is \<open>msg.sender\<close>, and a revert is the ledger's rejection. The
  estimation runs the same call and keeps nothing of it.
\<close>

fun revertReason :: "revert \<Rightarrow> string" where
  "revertReason NotOwner = ''RewardExecutor: not owner''"
| "revertReason OwnerIsZero = ''RewardExecutor: owner is zero''"
| "revertReason AlreadyExecuted = ''RewardExecutor: already executed''"

definition rewardExecutorEstimate ::
  "(string \<Rightarrow> address) \<Rightarrow> nat \<Rightarrow> string \<Rightarrow> string \<Rightarrow> call \<Rightarrow> RewardExecutor
     \<Rightarrow> error + nat" where
  "rewardExecutorEstimate addressOf gas signer target c s =
     (case dispatch (addressOf signer) c s of
        Inl r \<Rightarrow> Inl (LedgerRejected (revertReason r))
      | Inr s' \<Rightarrow> Inr gas)"

definition rewardExecutorLedger ::
  "(string \<Rightarrow> address) \<Rightarrow> string \<times> int \<Rightarrow> string \<Rightarrow> string \<Rightarrow> call \<Rightarrow> RewardExecutor
     \<Rightarrow> error + ((string \<times> int) \<times> RewardExecutor)" where
  "rewardExecutorLedger addressOf minedAs signer target c s =
     (case dispatch (addressOf signer) c s of
        Inl r \<Rightarrow> Inl (LedgerRejected (revertReason r))
      | Inr s' \<Rightarrow> Inr (minedAs, s'))"

section \<open>A sample run\<close>

text \<open>
  One concrete configuration, used to run the definitions: chain 114, an attestation
  transaction in block 100 with the chain at height 120, a proof whose URL queries half a
  day, both verification calls answering true, and a \<open>RewardExecutor\<close> owned by the
  signer's address 7.
\<close>

definition sampleJs :: js where
  "sampleJs =
     \<lparr>Number = (\<lambda>s. if s = ''12'' then Fin 12 else NaN),
      BigInt = (\<lambda>s. if s = ''114'' then Some 114 else None),
      JSON_parse = (\<lambda>s. if s = ''[]'' then Some (JArray []) else None),
      Date_parse = (\<lambda>s. if s = ''2024-01-01T00:00Z'' then Some 1704067200000
                         else if s = ''2024-01-01T12:00Z'' then Some 1704110400000
                         else None),
      sha256 = (\<lambda>_. ''0xdef'')\<rparr>"

definition sampleEthers :: "(call, RewardExecutor) ethers" where
  "sampleEthers =
     \<lparr>getAddress = (\<lambda>a. Some a),
      chainId = 114,
      getTransaction = (\<lambda>h. h = ''0xa77''),
      getTransactionReceipt =
        (\<lambda>h. if h = ''0xa77'' then Some \<lparr>receiptTo = Some ''0xfdc'', receiptBlockNumber = 100\<rparr>
              else None),
      getBlockNumber = 120,
      getBlockTimestamp = (\<lambda>n. Some 1704200000),
      verifyJsonApi = Inr True,
      verifyWeb2Json = Inr True,
      encodeFunctionData = (\<lambda>f n args. Some (ExecuteReward 5 1 2 3 4)),
      getFeeData = \<lparr>maxFeePerGas = Some 25, maxPriorityFeePerGas = Some 1\<rparr>,
      estimateGas = (\<lambda>target sender c. Some 50000),
      Wallet = (\<lambda>k. Some ''0x07''),
      signerEstimateGas = rewardExecutorEstimate (\<lambda>a. if a = ''0x07'' then 7 else 9) 50000,
      sendTransaction = rewardExecutorLedger (\<lambda>a. if a = ''0x07'' then 7 else 9) (''0xbeef'', 121)\<rparr>"

definition sampleEnv :: env where
  "sampleEnv =
     map_of
       [(''FLARE_RPC_URL'', ''http://rpc''),
        (''FLARE_CHAIN_ID'', ''114''),
        (''FDC_ATTESTATION_CONTRACT'', ''0xfdc''),
        (''ATTESTATION_TX_HASH'', ''0xa77''),
        (''REWARD_CONTRACT_ADDRESS'', ''0xc0de''),
        (''REWARD_FUNCTION_ARGS_JSON'', ''[]''),
        (''FLARE_SIGNER_KEY'', ''0xkey'')]"

definition sampleFiles :: files where
  "sampleFiles =
     \<lparr>requestSubmission = None,
      daProof = Some (DaProof 0 ''https://api/intensity/2024-01-01T00:00Z/2024-01-01T12:00Z''),
      apiResponse = Some ''{}''\<rparr>"

definition sampleChain :: "(call, RewardExecutor) chain" where
  "sampleChain =
     \<lparr>ledger = \<lparr>owner = 7, executedAttestations = (\<lambda>_. False), emitted = []\<rparr>,
      submitted = []\<rparr>"

text \<open>What the sample yields when the chain is only at height 105.\<close>

definition staleAttestation :: attestation where
  "staleAttestation =
     \<lparr>txHash = ''0xa77'', blockNumber = 100, confirmationsRequired = Fin 12,
      confirmations = 6, confirmed = Some False, verificationPassed = Some True,
      verificationFunction = ''verifyJsonApi'', attPayloadHashValid = Some True,
      timestampValid = Some True,
      attPayloadHash = \<lparr>computedMic = Some ''0xdef'', micMatchesExpected = None,
                        micMatchesSubmission = None, payloadHashValid = True\<rparr>,
      lowestUsedTimestamp = 0, blockTimestamp = 1704200000,
      requestTimestampRange =
        Some \<lparr>startIso = ''2024-01-01T00:00Z'', endIso = ''2024-01-01T12:00Z'',
              startMs = 1704067200000, endMs = 1704110400000, valid = True\<rparr>\<rparr>"

text \<open>
  The same ledger after a reward for attestation 5 has been recorded, and the ledger
  client's answers there: the best-effort gas estimate of line 165 now throws, because the
  call would revert. The attestation that the sample yields at height 120.
\<close>

definition rewardedChain :: "(call, RewardExecutor) chain" where
  "rewardedChain =
     \<lparr>ledger = transact (ledger sampleChain) (7, ExecuteReward 5 1 2 3 4),
      submitted = []\<rparr>"

definition rewardedEthers :: "(call, RewardExecutor) ethers" where
  "rewardedEthers = sampleEthers\<lparr>estimateGas := (\<lambda>target sender c. None)\<rparr>"

definition sampleAttestation :: attestation where
  "sampleAttestation = staleAttestation\<lparr>confirmations := 21, confirmed := Some True\<rparr>"

section \<open>Facts about the helpers\<close>

lemma thenE_Inr_iff: "(thenE m f = Inr a) \<longleftrightarrow> (\<exists>v. m = Inr v \<and> f v = Inr a)"
  by (cases m) (simp_all add: thenE_def)

lemma orThrow_Inr_iff: "(orThrow v e = Inr x) \<longleftrightarrow> (v = Some x)"
  by (cases v) (simp_all add: orThrow_def)

lemma proofRequestOf_Inr_iff: "(proofRequestOf j = Inr (l, u)) \<longleftrightarrow> (j = DaProof l u)"
  by (cases j) auto

lemma nonEmpty_idem: "nonEmpty (nonEmpty v) = nonEmpty v"
  by (simp add: nonEmpty_def split: option.splits)












lemma checkAttestation_Inr:
  assumes "checkAttestation lang eth env fs = Inr a"
  shows "\<exists>hash rcpt lowest url passed fnName blockTs.
           resolveTxHash env fs = Some hash
         \<and> getTransaction eth hash
         \<and> getTransactionReceipt eth hash = Some rcpt
         \<and> daProof fs = Some (DaProof lowest url)
         \<and> fst (verifyProof eth) = Inr (passed, fnName)
         \<and> getBlockTimestamp eth (receiptBlockNumber rcpt) = Some blockTs
         \<and> a = \<lparr>txHash = hash,
                 blockNumber = receiptBlockNumber rcpt,
                 confirmationsRequired = confirmationsRequiredOf lang env,
                 confirmations = confirmationsOf (getBlockNumber eth) (receiptBlockNumber rcpt),
                 confirmed = Some (confirmedOf (confirmationsOf (getBlockNumber eth) (receiptBlockNumber rcpt))
                                     (confirmationsRequiredOf lang env)),
                 verificationPassed = Some passed,
                 verificationFunction = fnName,
                 attPayloadHashValid = Some (payloadHashValid
                    (validatePayloadHash lang (apiResponse fs) (nonEmpty (env ''EXPECTED_MIC''))
                       (case requestSubmission fs of None \<Rightarrow> None
                        | Some submissionData \<Rightarrow> submissionComputedMic submissionData))),
                 timestampValid = Some (timestampValidOf lowest blockTs (parseRequestRange lang url)),
                 attPayloadHash = validatePayloadHash lang (apiResponse fs) (nonEmpty (env ''EXPECTED_MIC''))
                       (case requestSubmission fs of None \<Rightarrow> None
                        | Some submissionData \<Rightarrow> submissionComputedMic submissionData),
                 lowestUsedTimestamp = lowest,
                 blockTimestamp = blockTs,
                 requestTimestampRange = parseRequestRange lang url\<rparr>"
  using assms unfolding checkAttestation_def Let_def
  by (simp add: thenE_Inr_iff orThrow_Inr_iff proofRequestOf_Inr_iff split: if_splits prod.splits) blast

lemma checkAttestation_fields [consumes 1, case_names fields]:
  assumes "checkAttestation lang eth env fs = Inr a"
  obtains hash and rcpt :: receipt and lowest url passed fnName blockTs where
    "resolveTxHash env fs = Some hash"
    "getTransactionReceipt eth hash = Some rcpt"
    "daProof fs = Some (DaProof lowest url)"
    "fst (verifyProof eth) = Inr (passed, fnName)"
    "getBlockTimestamp eth (receiptBlockNumber rcpt) = Some blockTs"
    "txHash a = hash"
    "blockNumber a = receiptBlockNumber rcpt"
    "confirmationsRequired a = confirmationsRequiredOf lang env"
    "confirmations a = confirmationsOf (getBlockNumber eth) (receiptBlockNumber rcpt)"
    "confirmed a = Some (confirmedOf (confirmations a) (confirmationsRequired a))"
    "verificationPassed a = Some passed"
    "verificationFunction a = fnName"
    "attPayloadHashValid a = Some (payloadHashValid (attPayloadHash a))"
    "attPayloadHash a =
       validatePayloadHash lang (apiResponse fs) (nonEmpty (env ''EXPECTED_MIC''))
         (case requestSubmission fs of
            None \<Rightarrow> None
          | Some submissionData \<Rightarrow> submissionComputedMic submissionData)"
    "timestampValid a = Some (timestampValidOf lowest blockTs (parseRequestRange lang url))"
    "lowestUsedTimestamp a = lowest"
    "blockTimestamp a = blockTs"
    "requestTimestampRange a = parseRequestRange lang url"
proof -
  from checkAttestation_Inr [OF assms] obtain hash and rcpt :: receipt
      and lowest url passed fnName blockTs where
    1: "resolveTxHash env fs = Some hash" and
    2: "getTransactionReceipt eth hash = Some rcpt" and
    3: "daProof fs = Some (DaProof lowest url)" and
    4: "fst (verifyProof eth) = Inr (passed, fnName)" and
    5: "getBlockTimestamp eth (receiptBlockNumber rcpt) = Some blockTs" and
    a: "a = \<lparr>txHash = hash,
                 blockNumber = receiptBlockNumber rcpt,
                 confirmationsRequired = confirmationsRequiredOf lang env,
                 confirmations = confirmationsOf (getBlockNumber eth) (receiptBlockNumber rcpt),
                 confirmed = Some (confirmedOf (confirmationsOf (getBlockNumber eth) (receiptBlockNumber rcpt))
                                     (confirmationsRequiredOf lang env)),
                 verificationPassed = Some passed,
                 verificationFunction = fnName,
                 attPayloadHashValid = Some (payloadHashValid
                    (validatePayloadHash lang (apiResponse fs) (nonEmpty (env ''EXPECTED_MIC''))
                       (case requestSubmission fs of None \<Rightarrow> None
                        | Some submissionData \<Rightarrow> submissionComputedMic submissionData))),
                 timestampValid = Some (timestampValidOf lowest blockTs (parseRequestRange lang url)),
                 attPayloadHash = validatePayloadHash lang (apiResponse fs) (nonEmpty (env ''EXPECTED_MIC''))
                       (case requestSubmission fs of None \<Rightarrow> None
                        | Some submissionData \<Rightarrow> submissionComputedMic submissionData),
                 lowestUsedTimestamp = lowest,
                 blockTimestamp = blockTs,
                 requestTimestampRange = parseRequestRange lang url\<rparr>"
    by blast
  show thesis
    by (rule that [of hash rcpt lowest url passed fnName blockTs]) (simp_all add: 1 2 3 4 5 a)
qed

lemma assertRealMode_ctx:
  "assertRealMode c env = Inr () \<Longrightarrow> assertRealMode c' env = Inr ()"
  by (simp add: assertRealMode_def split: if_splits)

lemma checkAttestation_real:
  "checkAttestation lang eth env fs = Inr a \<Longrightarrow> assertRealMode c env = Inr ()"
  unfolding checkAttestation_def
  by (auto simp: thenE_Inr_iff intro: assertRealMode_ctx)

lemma rewardGate_Inr_iff:
  "rewardGate att required = Inr () \<longleftrightarrow>
     verificationPassed att = Some True \<and> confirmed att = Some True
   \<and> \<not> js_less (jsInt (confirmations att)) required
   \<and> attPayloadHashValid att = Some True \<and> timestampValid att = Some True"
  by (auto simp: rewardGate_def truthy_def)

lemma rewardGate_Inl:
  "rewardGate att required = Inl e \<Longrightarrow>
     e \<in> {VerificationFailed, NotEnoughConfirmations (confirmations att) required,
          HashOrTimestampInvalid}"
  by (auto simp: rewardGate_def split: if_splits)

lemma prepareReward_blocked:
  assumes "checkAttestation lang eth env fs = Inr att"
      and "rewardGate att (confirmationsRequiredOf lang env) = Inl e"
  shows "prepareReward lang eth env fs = Inl e"
proof -
  have "assertRealMode ''run_reward_flow.js'' env = Inr ()"
    using assms(1) by (rule checkAttestation_real)
  with assms show ?thesis
    by (simp add: prepareReward_def thenE_def)
qed

lemma prepareReward_Inr:
  assumes "prepareReward lang eth env fs = Inr p"
  shows "checkAttestation lang eth env fs = Inr (prepAttestation p)
       \<and> rewardGate (prepAttestation p) (confirmationsRequiredOf lang env) = Inr ()
       \<and> encodeFunctionData eth (prepFunctionAbi p) (prepFunctionName p) (prepFunctionArgs p)
           = Some (prepCalldata p)
       \<and> prepEstimatedGas p
           = estimateGas eth (prepRewardContractAddress p) (prepEstimateFrom p) (prepCalldata p)
       \<and> prepFeeData p = getFeeData eth"
  using assms unfolding prepareReward_def Let_def
  by (auto simp: thenE_Inr_iff orThrow_Inr_iff split: if_splits)

lemma finishReward_dry:
  "dryRunFlag env \<Longrightarrow>
     finishReward lang eth env p w =
       (Inr (DryRunOutcome (prepAttestation p) (prepEstimatedGas p)
               (case maxFeePerGas (prepFeeData p) of None \<Rightarrow> 0 | Some f \<Rightarrow> f)
               (prepRewardContractAddress p) (prepFunctionName p) (prepCalldata p)), w)"
  by (simp add: finishReward_def)

lemma finishReward_not_dry:
  "\<not> dryRunFlag env \<Longrightarrow> fst (finishReward lang eth env p w) = Inr out \<Longrightarrow> \<not> dryRunOf out"
  by (auto simp: finishReward_def Let_def split: option.splits sum.splits if_splits prod.splits)

lemma runRewardFlow_changed:
  "snd (runRewardFlow lang eth env fs w) \<noteq> w \<Longrightarrow> \<exists>p. prepareReward lang eth env fs = Inr p"
  by (auto simp: runRewardFlow_def split: sum.splits)

text \<open>The equations that run the definitions on the sample.\<close>

lemmas sample_defs = sampleJs_def sampleEthers_def sampleEnv_def sampleFiles_def sampleChain_def
  rewardedChain_def staleAttestation_def rewardedEthers_def sampleAttestation_def
lemmas eval_defs = checkAttestation_def thenE_def orThrow_def mustEnv_def optionalEnv_def nonEmpty_def orElse_def
  assertRealMode_def getAttestationMode_def parseBooleanLike_def toLowerCase_def lowerChar_def trim_def isSpace_def
  SIMULATION_VALUES_def REAL_VALUES_def confirmationsRequiredOf_def DEFAULT_CONFIRMATIONS_def DEFAULT_VERIFICATION_ADDRESS_def
  resolveTxHash_def confirmationsOf_def confirmedOf_def jsInt_def verifyProof_def validatePayloadHash_def
  parseRequestRange_def timestampValidOf_def startsWith_def slice_def Let_def
  prepareReward_def rewardGate_def truthy_def functionAbiOf_def functionArgsOf_def finishReward_def
  runRewardFlow_def dryRunFlag_def signerModeOf_def rewardExecutorLedger_def
  rewardExecutorEstimate_def executeReward_def
  setOwner_def

section \<open>Replay protection and access control\<close>

lemma transactAll_Nil: "transactAll s [] = s"
  by (simp add: transactAll_def)

lemma transactAll_snoc: "transactAll s (txs @ [t]) = transact (transactAll s txs) t"
  by (simp add: transactAll_def)

lemma constructor_consistent: "constructor a = Inr s \<Longrightarrow> consistent s"
  by (auto simp: constructor_def consistent_def recordsFor_def split: if_splits)

lemma constructor_owner: "constructor a = Inr s \<Longrightarrow> owner s \<noteq> 0"
  by (auto simp: constructor_def split: if_splits)

lemma setOwner_consistent: "consistent s \<Longrightarrow> setOwner sender a s = Inr s' \<Longrightarrow> consistent s'"
  by (auto simp: setOwner_def consistent_def recordsFor_def split: if_splits)

lemma executeReward_consistent:
  "consistent s \<Longrightarrow> executeReward sender h p k a w s = Inr s' \<Longrightarrow> consistent s'"
  by (auto simp: executeReward_def consistent_def recordsFor_def split: if_splits)

lemma transact_consistent: "consistent s \<Longrightarrow> consistent (transact s t)"
proof (cases t)
  case (Pair sender c)
  assume inv: "consistent s"
  show ?thesis
  proof (cases c)
    case (SetOwner a)
    with Pair inv show ?thesis
      by (auto split: sum.splits dest: setOwner_consistent)
  next
    case (ExecuteReward h p k a w)
    with Pair inv show ?thesis
      by (auto split: sum.splits dest: executeReward_consistent)
  qed
qed

lemma transactAll_consistent: "consistent s \<Longrightarrow> consistent (transactAll s txs)"
  by (induction txs rule: rev_induct) (simp_all add: transactAll_Nil transactAll_snoc transact_consistent)

lemma transact_keeps_flag: "executedAttestations s h \<Longrightarrow> executedAttestations (transact s t) h"
proof (cases t)
  case (Pair sender c)
  assume "executedAttestations s h"
  with Pair show ?thesis
    by (cases c) (auto simp: setOwner_def executeReward_def split: sum.splits if_splits)
qed

lemma transactAll_keeps_flag:
  "executedAttestations s h \<Longrightarrow> executedAttestations (transactAll s txs) h"
  by (induction txs rule: rev_induct) (simp_all add: transactAll_Nil transactAll_snoc transact_keeps_flag)

lemma transact_owner_nonzero: "owner s \<noteq> 0 \<Longrightarrow> owner (transact s t) \<noteq> 0"
proof (cases t)
  case (Pair sender c)
  assume "owner s \<noteq> 0"
  with Pair show ?thesis
    by (cases c) (auto simp: setOwner_def executeReward_def split: sum.splits if_splits)
qed

lemma transactAll_owner_nonzero: "owner s \<noteq> 0 \<Longrightarrow> owner (transactAll s txs) \<noteq> 0"
  by (induction txs rule: rev_induct) (simp_all add: transactAll_Nil transactAll_snoc transact_owner_nonzero)

lemma executeReward_sets:
  "executeReward sender h p k a w s = Inr s' \<Longrightarrow>
     executedAttestations s' h \<and>
     emitted s' = emitted s @ [\<lparr>ev_attestationTxHash = h, ev_payloadHash = p, ev_slotKey = k,
                               ev_participant = a, ev_shiftedKw = w\<rparr>]"
  by (auto simp: executeReward_def split: if_splits)

text \<open>
  C2. From the state the constructor leaves, after any sequence of transactions (from any
  senders, in any order, repeated or not), the log holds at most one \<open>RewardExecuted\<close>
  event for a given attestation hash, and it holds one exactly when the mapping is set for
  that hash. A successful \<open>executeReward\<close> finds the mapping unset, sets it and appends
  one event; after it, whatever transactions follow, every \<open>executeReward\<close> with the same
  hash reverts, changes nothing, and the hash keeps exactly one record.
\<close>

theorem at_most_one_reward_record:
  assumes init: "constructor a0 = Inr s0"
  shows "length (recordsFor h (transactAll s0 txs)) \<le> 1
       \<and> (executedAttestations (transactAll s0 txs) h \<longleftrightarrow> length (recordsFor h (transactAll s0 txs)) = 1)
       \<and> (\<forall>sender p k a w s'.
            executeReward sender h p k a w (transactAll s0 txs) = Inr s' \<longrightarrow>
              \<not> executedAttestations (transactAll s0 txs) h
            \<and> executedAttestations s' h
            \<and> emitted s' = emitted (transactAll s0 txs) @
                 [\<lparr>ev_attestationTxHash = h, ev_payloadHash = p, ev_slotKey = k,
                   ev_participant = a, ev_shiftedKw = w\<rparr>]
            \<and> length (recordsFor h s') = 1
            \<and> (\<forall>later sender' p' k' a' w'.
                  executeReward sender' h p' k' a' w' (transactAll s' later) \<in> {Inl NotOwner, Inl AlreadyExecuted}
                \<and> transact (transactAll s' later) (sender', ExecuteReward h p' k' a' w') = transactAll s' later
                \<and> length (recordsFor h (transactAll s' later)) = 1))"
proof -
  let ?s = "transactAll s0 txs"
  have inv: "consistent ?s"
    using init by (simp add: constructor_consistent transactAll_consistent)
  have cnt: "length (recordsFor h ?s) = (if executedAttestations ?s h then 1 else 0)"
    using inv by (simp add: consistent_def)
  have first: "length (recordsFor h ?s) \<le> 1" using cnt by simp
  have second: "executedAttestations ?s h \<longleftrightarrow> length (recordsFor h ?s) = 1" using cnt by simp
  have third: "\<not> executedAttestations ?s h
            \<and> executedAttestations s' h
            \<and> emitted s' = emitted ?s @
                 [\<lparr>ev_attestationTxHash = h, ev_payloadHash = p, ev_slotKey = k,
                   ev_participant = a, ev_shiftedKw = w\<rparr>]
            \<and> length (recordsFor h s') = 1
            \<and> (\<forall>later sender' p' k' a' w'.
                  executeReward sender' h p' k' a' w' (transactAll s' later) \<in> {Inl NotOwner, Inl AlreadyExecuted}
                \<and> transact (transactAll s' later) (sender', ExecuteReward h p' k' a' w') = transactAll s' later
                \<and> length (recordsFor h (transactAll s' later)) = 1)"
    if ok: "executeReward sender h p k a w ?s = Inr s'" for sender p k a w s'
  proof -
    have fresh: "\<not> executedAttestations ?s h"
      using ok by (auto simp: executeReward_def split: if_splits)
    have set: "executedAttestations s' h" and ev: "emitted s' = emitted ?s @
                 [\<lparr>ev_attestationTxHash = h, ev_payloadHash = p, ev_slotKey = k,
                   ev_participant = a, ev_shiftedKw = w\<rparr>]"
      using executeReward_sets [OF ok] by simp_all
    have inv': "consistent s'" using inv ok by (rule executeReward_consistent)
    have one: "length (recordsFor h s') = 1"
      using inv' set by (simp add: consistent_def)
    have later: "executeReward sender' h p' k' a' w' (transactAll s' later) \<in> {Inl NotOwner, Inl AlreadyExecuted}
                \<and> transact (transactAll s' later) (sender', ExecuteReward h p' k' a' w') = transactAll s' later
                \<and> length (recordsFor h (transactAll s' later)) = 1"
      for later sender' p' k' a' w'
    proof -
      have flag: "executedAttestations (transactAll s' later) h"
        using set by (rule transactAll_keeps_flag)
      have rev: "executeReward sender' h p' k' a' w' (transactAll s' later) \<in> {Inl NotOwner, Inl AlreadyExecuted}"
        using flag by (simp add: executeReward_def)
      have same: "transact (transactAll s' later) (sender', ExecuteReward h p' k' a' w') = transactAll s' later"
        using rev by auto
      have "consistent (transactAll s' later)" using inv' by (rule transactAll_consistent)
      then have "length (recordsFor h (transactAll s' later)) = 1"
        using flag by (simp add: consistent_def)
      with rev same show ?thesis by simp
    qed
    from fresh set ev one later show ?thesis by blast
  qed
  from first second third show ?thesis by blast
qed

theorem at_most_one_reward_record_witness:
  "constructor 7 = Inr \<lparr>owner = 7, executedAttestations = (\<lambda>_. False), emitted = []\<rparr>
   \<and> length (recordsFor 5 (transactAll \<lparr>owner = 7, executedAttestations = (\<lambda>_. False), emitted = []\<rparr>
        [(7, ExecuteReward 5 1 2 3 4), (7, ExecuteReward 5 1 2 3 4), (9, ExecuteReward 5 8 8 8 8)])) = 1
   \<and> executedAttestations (transactAll \<lparr>owner = 7, executedAttestations = (\<lambda>_. False), emitted = []\<rparr>
        [(7, ExecuteReward 5 1 2 3 4), (7, ExecuteReward 5 1 2 3 4), (9, ExecuteReward 5 8 8 8 8)]) 5"
proof -
  have c: "constructor 7 = Inr \<lparr>owner = 7, executedAttestations = (\<lambda>_. False), emitted = []\<rparr>"
    by (simp add: constructor_def)
  have e: "executedAttestations (transactAll \<lparr>owner = 7, executedAttestations = (\<lambda>_. False), emitted = []\<rparr>
        [(7, ExecuteReward 5 1 2 3 4), (7, ExecuteReward 5 1 2 3 4), (9, ExecuteReward 5 8 8 8 8)]) 5"
    by (simp add: transactAll_def executeReward_def)
  from at_most_one_reward_record [OF c, of 5 "[(7, ExecuteReward 5 1 2 3 4), (7, ExecuteReward 5 1 2 3 4), (9, ExecuteReward 5 8 8 8 8)]"] c e
  show ?thesis by blast
qed

text \<open>
  C10. \<open>executeReward\<close> from any sender other than the stored owner reverts with
  the owner check and leaves the contract state (mapping, owner, log) as it was; a call
  that succeeds came from the owner and keeps the owner. The constructor and \<open>setOwner\<close>
  reject the zero address, so in every state reachable from a successful construction the
  owner is not zero.
\<close>

theorem executeReward_owner_only:
  "(sender \<noteq> owner s \<longrightarrow>
       executeReward sender h p k a w s = Inl NotOwner
     \<and> transact s (sender, ExecuteReward h p k a w) = s)
   \<and> (executeReward sender h p k a w s = Inr s' \<longrightarrow> sender = owner s \<and> owner s' = owner s)
   \<and> constructor 0 = Inl OwnerIsZero
   \<and> (sender = owner s \<longrightarrow> setOwner sender 0 s = Inl OwnerIsZero)
   \<and> (constructor a0 = Inr s0 \<longrightarrow> owner (transactAll s0 txs) \<noteq> 0)"
proof -
  have a: "sender \<noteq> owner s \<longrightarrow>
       executeReward sender h p k a w s = Inl NotOwner
     \<and> transact s (sender, ExecuteReward h p k a w) = s"
    by (simp add: executeReward_def)
  have b: "executeReward sender h p k a w s = Inr s' \<longrightarrow> sender = owner s \<and> owner s' = owner s"
    by (auto simp: executeReward_def split: if_splits)
  have c: "constructor 0 = Inl OwnerIsZero" by (simp add: constructor_def)
  have d: "sender = owner s \<longrightarrow> setOwner sender 0 s = Inl OwnerIsZero"
    by (simp add: setOwner_def)
  have e: "constructor a0 = Inr s0 \<longrightarrow> owner (transactAll s0 txs) \<noteq> 0"
    using constructor_owner transactAll_owner_nonzero by blast
  from a b c d e show ?thesis by blast
qed

theorem executeReward_owner_only_witness:
  "(9::address) \<noteq> owner \<lparr>owner = 7, executedAttestations = (\<lambda>_. False), emitted = []\<rparr>
   \<and> executeReward 9 5 1 2 3 4 \<lparr>owner = 7, executedAttestations = (\<lambda>_. False), emitted = []\<rparr> = Inl NotOwner
   \<and> constructor 7 = Inr \<lparr>owner = 7, executedAttestations = (\<lambda>_. False), emitted = []\<rparr>
   \<and> owner (transactAll \<lparr>owner = 7, executedAttestations = (\<lambda>_. False), emitted = []\<rparr>
        [(7, SetOwner 0), (7, SetOwner 9), (9, ExecuteReward 5 1 2 3 4)]) \<noteq> 0
   \<and> executeReward 7 5 1 2 3 4 \<lparr>owner = 7, executedAttestations = (\<lambda>_. False), emitted = []\<rparr> \<noteq> Inl NotOwner
   \<and> setOwner 7 0 \<lparr>owner = 7, executedAttestations = (\<lambda>_. False), emitted = []\<rparr> = Inl OwnerIsZero"
proof -
  have n: "(9::address) \<noteq> owner \<lparr>owner = 7, executedAttestations = (\<lambda>_. False), emitted = []\<rparr>"
    by simp
  have c: "constructor 7 = Inr \<lparr>owner = 7, executedAttestations = (\<lambda>_. False), emitted = []\<rparr>"
    by (simp add: constructor_def)
  have o: "executeReward 7 5 1 2 3 4 \<lparr>owner = 7, executedAttestations = (\<lambda>_. False), emitted = []\<rparr> \<noteq> Inl NotOwner"
    by (simp add: executeReward_def)
  have z: "(7::address) = owner \<lparr>owner = 7, executedAttestations = (\<lambda>_. False), emitted = []\<rparr>"
    by simp
  from executeReward_owner_only [of 9 "\<lparr>owner = 7, executedAttestations = (\<lambda>_. False), emitted = []\<rparr>" 5 1 2 3 4 _ 7 _ "[(7, SetOwner 0), (7, SetOwner 9), (9, ExecuteReward 5 1 2 3 4)]"] 
       executeReward_owner_only [of 7 "\<lparr>owner = 7, executedAttestations = (\<lambda>_. False), emitted = []\<rparr>"] n c o z
  show ?thesis by blast
qed

section \<open>The policy evaluators\<close>

text \<open>
  C7. In every attestation that \<open>checkAttestation\<close> returns, the confirmations are
  the chain height minus the height of the transaction's block plus one; the required count
  is 12 unless \<open>CONFIRMATIONS\<close> is set to a non-empty text, in which case it is the number
  that text denotes; and the confirmation-depth verdict is the JavaScript comparison
  \<open>confirmations >= required\<close>, which for a finite requirement is the comparison of the
  two numbers. With block 100 and height 105 the confirmations are 6, and against a
  requirement of 12 the verdict is false.
\<close>

theorem confirmation_depth:
  "(checkAttestation lang eth env fs = Inr a \<longrightarrow>
      (\<exists>rcpt. getTransactionReceipt eth (txHash a) = Some rcpt
             \<and> blockNumber a = receiptBlockNumber rcpt)
    \<and> confirmations a = getBlockNumber eth - blockNumber a + 1
    \<and> confirmationsRequired a =
         (case env ''CONFIRMATIONS'' of
            None \<Rightarrow> Fin 12
          | Some s \<Rightarrow> if s = [] then Fin 12 else Number lang s)
    \<and> confirmed a = Some (js_ge (Fin (of_int (confirmations a))) (confirmationsRequired a))
    \<and> (\<forall>r. confirmationsRequired a = Fin r \<longrightarrow>
           (confirmed a = Some True \<longleftrightarrow> of_int (confirmations a) \<ge> r)))
   \<and> confirmationsOf 105 100 = 6
   \<and> confirmedOf (confirmationsOf 105 100) (Fin 12) = False"
proof -
  have main: "(\<exists>rcpt. getTransactionReceipt eth (txHash a) = Some rcpt
             \<and> blockNumber a = receiptBlockNumber rcpt)
    \<and> confirmations a = getBlockNumber eth - blockNumber a + 1
    \<and> confirmationsRequired a =
         (case env ''CONFIRMATIONS'' of
            None \<Rightarrow> Fin 12
          | Some s \<Rightarrow> if s = [] then Fin 12 else Number lang s)
    \<and> confirmed a = Some (js_ge (Fin (of_int (confirmations a))) (confirmationsRequired a))
    \<and> (\<forall>r. confirmationsRequired a = Fin r \<longrightarrow>
           (confirmed a = Some True \<longleftrightarrow> of_int (confirmations a) \<ge> r))"
    if ok: "checkAttestation lang eth env fs = Inr a"
  proof -
    from ok obtain hash and rcpt :: receipt where
      r: "getTransactionReceipt eth hash = Some rcpt" and
      h: "txHash a = hash" and
      b: "blockNumber a = receiptBlockNumber rcpt" and
      q: "confirmationsRequired a = confirmationsRequiredOf lang env" and
      c: "confirmations a = confirmationsOf (getBlockNumber eth) (receiptBlockNumber rcpt)" and
      d: "confirmed a = Some (confirmedOf (confirmations a) (confirmationsRequired a))"
      by (cases rule: checkAttestation_fields) blast
    have 1: "\<exists>rcpt. getTransactionReceipt eth (txHash a) = Some rcpt
             \<and> blockNumber a = receiptBlockNumber rcpt"
      using r h b by auto
    have 2: "confirmations a = getBlockNumber eth - blockNumber a + 1"
      using c b by (simp add: confirmationsOf_def)
    have 3: "confirmationsRequired a =
         (case env ''CONFIRMATIONS'' of
            None \<Rightarrow> Fin 12
          | Some s \<Rightarrow> if s = [] then Fin 12 else Number lang s)"
      using q by (simp add: confirmationsRequiredOf_def nonEmpty_def DEFAULT_CONFIRMATIONS_def
                      split: option.splits)
    have 4: "confirmed a = Some (js_ge (Fin (of_int (confirmations a))) (confirmationsRequired a))"
      using d by (simp add: confirmedOf_def jsInt_def)
    have 5: "\<forall>r. confirmationsRequired a = Fin r \<longrightarrow>
           (confirmed a = Some True \<longleftrightarrow> of_int (confirmations a) \<ge> r)"
      using 4 by auto
    from 1 2 3 4 5 show ?thesis by blast
  qed
  have s1: "confirmationsOf 105 100 = 6" by (simp add: confirmationsOf_def)
  have s2: "confirmedOf (confirmationsOf 105 100) (Fin 12) = False"
    by (simp add: confirmationsOf_def confirmedOf_def jsInt_def)
  from main s1 s2 show ?thesis by blast
qed

theorem confirmation_depth_witness:
  "checkAttestation sampleJs (sampleEthers\<lparr>getBlockNumber := 105\<rparr>) sampleEnv sampleFiles =
     Inr \<lparr>txHash = ''0xa77'', blockNumber = 100, confirmationsRequired = Fin 12,
          confirmations = 6, confirmed = Some False, verificationPassed = Some True,
          verificationFunction = ''verifyJsonApi'', attPayloadHashValid = Some True,
          timestampValid = Some True,
          attPayloadHash = \<lparr>computedMic = Some ''0xdef'', micMatchesExpected = None,
                            micMatchesSubmission = None, payloadHashValid = True\<rparr>,
          lowestUsedTimestamp = 0, blockTimestamp = 1704200000,
          requestTimestampRange =
            Some \<lparr>startIso = ''2024-01-01T00:00Z'', endIso = ''2024-01-01T12:00Z'',
                  startMs = 1704067200000, endMs = 1704110400000, valid = True\<rparr>\<rparr>
   \<and> (6::int) = getBlockNumber (sampleEthers\<lparr>getBlockNumber := 105\<rparr>) - 100 + 1
   \<and> \<not> ((of_int 6 :: rat) \<ge> 12)"
proof -
  let ?a = "\<lparr>txHash = ''0xa77'', blockNumber = 100, confirmationsRequired = Fin 12,
          confirmations = 6, confirmed = Some False, verificationPassed = Some True,
          verificationFunction = ''verifyJsonApi'', attPayloadHashValid = Some True,
          timestampValid = Some True,
          attPayloadHash = \<lparr>computedMic = Some ''0xdef'', micMatchesExpected = None,
                            micMatchesSubmission = None, payloadHashValid = True\<rparr>,
          lowestUsedTimestamp = 0, blockTimestamp = 1704200000,
          requestTimestampRange =
            Some \<lparr>startIso = ''2024-01-01T00:00Z'', endIso = ''2024-01-01T12:00Z'',
                  startMs = 1704067200000, endMs = 1704110400000, valid = True\<rparr>\<rparr>"
  have run: "checkAttestation sampleJs (sampleEthers\<lparr>getBlockNumber := 105\<rparr>) sampleEnv sampleFiles = Inr ?a"
    by (simp add: sample_defs eval_defs)
  from confirmation_depth [of sampleJs "sampleEthers\<lparr>getBlockNumber := 105\<rparr>" sampleEnv sampleFiles ?a] run
  have "confirmations ?a = getBlockNumber (sampleEthers\<lparr>getBlockNumber := 105\<rparr>) - blockNumber ?a + 1"
    and "\<forall>r. confirmationsRequired ?a = Fin r \<longrightarrow>
           (confirmed ?a = Some True \<longleftrightarrow> of_int (confirmations ?a) \<ge> r)"
    by blast+
  then have "(6::int) = getBlockNumber (sampleEthers\<lparr>getBlockNumber := 105\<rparr>) - 100 + 1"
    and "\<not> ((of_int 6 :: rat) \<ge> 12)"
    by simp_all
  with run show ?thesis by blast
qed

text \<open>
  C8. The payload-integrity verdict of \<open>validatePayloadHash\<close> is true exactly when
  neither comparison that is present disagrees: the digest recomputed from the API response
  differs (as hex, compared without regard to letter case) from no supplied expected digest
  and from no digest recorded at submission. With neither digest supplied it is true.
  \<open>checkAttestation\<close> stores this verdict unchanged, it depends on no other verdict,
  and when it is false the reward gate refuses whatever the other verdicts are.
\<close>

theorem payload_integrity:
  "(payloadHashValid (validatePayloadHash lang api expected recorded) \<longleftrightarrow>
      \<not> (\<exists>bytes e. api = Some bytes \<and> nonEmpty expected = Some e
                    \<and> toLowerCase (sha256 lang bytes) \<noteq> toLowerCase e)
    \<and> \<not> (\<exists>bytes m. api = Some bytes \<and> nonEmpty recorded = Some m
                    \<and> toLowerCase (sha256 lang bytes) \<noteq> toLowerCase m))
   \<and> (nonEmpty expected = None \<and> nonEmpty recorded = None \<longrightarrow>
        payloadHashValid (validatePayloadHash lang api expected recorded))
   \<and> (checkAttestation lang eth env fs = Inr a \<longrightarrow>
        attPayloadHashValid a =
          Some (payloadHashValid
                  (validatePayloadHash lang (apiResponse fs) (env ''EXPECTED_MIC'')
                     (case requestSubmission fs of
                        None \<Rightarrow> None
                      | Some submissionData \<Rightarrow> submissionComputedMic submissionData))))
   \<and> (attPayloadHashValid a = Some False \<longrightarrow> rewardGate a required \<noteq> Inr ())"
proof -
  have iff: "payloadHashValid (validatePayloadHash lang api expected recorded) \<longleftrightarrow>
      \<not> (\<exists>bytes e. api = Some bytes \<and> nonEmpty expected = Some e
                    \<and> toLowerCase (sha256 lang bytes) \<noteq> toLowerCase e)
    \<and> \<not> (\<exists>bytes m. api = Some bytes \<and> nonEmpty recorded = Some m
                    \<and> toLowerCase (sha256 lang bytes) \<noteq> toLowerCase m)"
    by (cases api; cases "nonEmpty expected"; cases "nonEmpty recorded")
       (simp_all add: validatePayloadHash_def)
  have absent: "nonEmpty expected = None \<and> nonEmpty recorded = None \<longrightarrow>
        payloadHashValid (validatePayloadHash lang api expected recorded)"
    using iff by simp
  have same: "validatePayloadHash lang x (nonEmpty y) z = validatePayloadHash lang x y z" for x y z
    by (simp add: validatePayloadHash_def nonEmpty_idem)
  have field: "checkAttestation lang eth env fs = Inr a \<longrightarrow>
        attPayloadHashValid a =
          Some (payloadHashValid
                  (validatePayloadHash lang (apiResponse fs) (env ''EXPECTED_MIC'')
                     (case requestSubmission fs of
                        None \<Rightarrow> None
                      | Some submissionData \<Rightarrow> submissionComputedMic submissionData)))"
  proof
    assume ok: "checkAttestation lang eth env fs = Inr a"
    from ok show "attPayloadHashValid a =
          Some (payloadHashValid
                  (validatePayloadHash lang (apiResponse fs) (env ''EXPECTED_MIC'')
                     (case requestSubmission fs of
                        None \<Rightarrow> None
                      | Some submissionData \<Rightarrow> submissionComputedMic submissionData)))"
    proof (cases rule: checkAttestation_fields)
      case (fields hash rcpt lo u passed fnName ts)
      show ?thesis by (simp only: fields(13,14) same)
    qed
  qed
  have gate: "attPayloadHashValid a = Some False \<longrightarrow> rewardGate a required \<noteq> Inr ()"
    by (simp add: rewardGate_def truthy_def)
  from iff absent field gate show ?thesis by blast
qed

theorem payload_integrity_witness:
  "\<not> payloadHashValid (validatePayloadHash sampleJs (Some ''{}'') (Some ''0xabc'') None)
   \<and> payloadHashValid (validatePayloadHash sampleJs (Some ''{}'') (Some ''0xDEF'') (Some ''0xdef''))
   \<and> \<not> payloadHashValid (validatePayloadHash sampleJs (Some ''{}'') None (Some ''0xabc''))
   \<and> payloadHashValid (validatePayloadHash sampleJs (Some ''{}'') None None)"
proof -
  have lower: "toLowerCase ''0xDEF'' = ''0xdef''" "toLowerCase ''0xdef'' = ''0xdef''"
    "toLowerCase ''0xabc'' = ''0xabc''"
    by (simp_all add: toLowerCase_def lowerChar_def)
  have d1: "\<not> (\<not> (\<exists>bytes e. Some ''{}'' = Some bytes \<and> nonEmpty (Some ''0xabc'') = Some e
                    \<and> toLowerCase (sha256 sampleJs bytes) \<noteq> toLowerCase e)
          \<and> \<not> (\<exists>bytes m. Some ''{}'' = Some bytes \<and> nonEmpty None = Some m
                    \<and> toLowerCase (sha256 sampleJs bytes) \<noteq> toLowerCase m))"
    by (simp add: nonEmpty_def sampleJs_def lower)
  have d2: "\<not> (\<exists>bytes e. Some ''{}'' = Some bytes \<and> nonEmpty (Some ''0xDEF'') = Some e
                    \<and> toLowerCase (sha256 sampleJs bytes) \<noteq> toLowerCase e)
          \<and> \<not> (\<exists>bytes m. Some ''{}'' = Some bytes \<and> nonEmpty (Some ''0xdef'') = Some m
                    \<and> toLowerCase (sha256 sampleJs bytes) \<noteq> toLowerCase m)"
    by (simp add: nonEmpty_def sampleJs_def lower)
  have d3: "\<not> (\<not> (\<exists>bytes e. Some ''{}'' = Some bytes \<and> nonEmpty None = Some e
                    \<and> toLowerCase (sha256 sampleJs bytes) \<noteq> toLowerCase e)
          \<and> \<not> (\<exists>bytes m. Some ''{}'' = Some bytes \<and> nonEmpty (Some ''0xabc'') = Some m
                    \<and> toLowerCase (sha256 sampleJs bytes) \<noteq> toLowerCase m))"
    by (simp add: nonEmpty_def sampleJs_def lower)
  have d4: "nonEmpty None = None \<and> nonEmpty None = None" by (simp add: nonEmpty_def)
  note i1 = payload_integrity [of sampleJs "Some ''{}''" "Some ''0xabc''" None, THEN conjunct1]
  note i2 = payload_integrity [of sampleJs "Some ''{}''" "Some ''0xDEF''" "Some ''0xdef''", THEN conjunct1]
  note i3 = payload_integrity [of sampleJs "Some ''{}''" None "Some ''0xabc''", THEN conjunct1]
  note i4 = payload_integrity [of sampleJs "Some ''{}''" None None,
               THEN conjunct2, THEN conjunct1, THEN mp, OF d4]
  have 1: "\<not> payloadHashValid (validatePayloadHash sampleJs (Some ''{}'') (Some ''0xabc'') None)"
    unfolding i1 by (rule d1)
  have 2: "payloadHashValid (validatePayloadHash sampleJs (Some ''{}'') (Some ''0xDEF'') (Some ''0xdef''))"
    unfolding i2 by (rule d2)
  have 3: "\<not> payloadHashValid (validatePayloadHash sampleJs (Some ''{}'') None (Some ''0xabc''))"
    unfolding i3 by (rule d3)
  from 1 2 3 i4 show ?thesis by (intro conjI)
qed



section \<open>The reward execution gate\<close>

text \<open>
  C1. When \<open>checkAttestation\<close> returns an attestation in which \<open>verificationPassed\<close>,
  \<open>confirmed\<close>, \<open>payloadHashValid\<close> or \<open>timestampValid\<close> is not true, or whose
  confirmations are below the required count, \<open>runRewardFlow\<close> ends with the error of
  the gate at lines 117 to 127, raised before any call data is built, and the ledger is as it
  was, with nothing submitted. Conversely, a run that changes the ledger state or submits
  anything had an attestation in which all four verdicts were true.
\<close>

theorem no_reward_without_verification:
  "(checkAttestation lang eth env fs = Inr att
      \<and> (verificationPassed att \<noteq> Some True
         \<or> confirmed att \<noteq> Some True
         \<or> js_less (jsInt (confirmations att)) (confirmationsRequiredOf lang env)
         \<or> attPayloadHashValid att \<noteq> Some True
         \<or> timestampValid att \<noteq> Some True) \<longrightarrow>
      (\<exists>e. runRewardFlow lang eth env fs w = (Inl e, w)
          \<and> e \<in> {VerificationFailed,
                  NotEnoughConfirmations (confirmations att) (confirmationsRequiredOf lang env),
                  HashOrTimestampInvalid}))
   \<and> (snd (runRewardFlow lang eth env fs w) \<noteq> w \<longrightarrow>
        (\<exists>att. checkAttestation lang eth env fs = Inr att
            \<and> verificationPassed att = Some True
            \<and> confirmed att = Some True
            \<and> \<not> js_less (jsInt (confirmations att)) (confirmationsRequiredOf lang env)
            \<and> attPayloadHashValid att = Some True
            \<and> timestampValid att = Some True))"
proof -
  have blocked: "checkAttestation lang eth env fs = Inr att
      \<and> (verificationPassed att \<noteq> Some True
         \<or> confirmed att \<noteq> Some True
         \<or> js_less (jsInt (confirmations att)) (confirmationsRequiredOf lang env)
         \<or> attPayloadHashValid att \<noteq> Some True
         \<or> timestampValid att \<noteq> Some True) \<longrightarrow>
      (\<exists>e. runRewardFlow lang eth env fs w = (Inl e, w)
          \<and> e \<in> {VerificationFailed,
                  NotEnoughConfirmations (confirmations att) (confirmationsRequiredOf lang env),
                  HashOrTimestampInvalid})"
  proof (intro impI, elim conjE)
    assume ok: "checkAttestation lang eth env fs = Inr att"
      and bad: "verificationPassed att \<noteq> Some True
         \<or> confirmed att \<noteq> Some True
         \<or> js_less (jsInt (confirmations att)) (confirmationsRequiredOf lang env)
         \<or> attPayloadHashValid att \<noteq> Some True
         \<or> timestampValid att \<noteq> Some True"
    from bad have "rewardGate att (confirmationsRequiredOf lang env) \<noteq> Inr ()"
      by (simp only: rewardGate_Inr_iff) blast
    then obtain e where e: "rewardGate att (confirmationsRequiredOf lang env) = Inl e"
      by (cases "rewardGate att (confirmationsRequiredOf lang env)") auto
    have "prepareReward lang eth env fs = Inl e"
      using ok e by (rule prepareReward_blocked)
    then have "runRewardFlow lang eth env fs w = (Inl e, w)"
      by (simp add: runRewardFlow_def)
    with rewardGate_Inl [OF e]
    show "\<exists>e. runRewardFlow lang eth env fs w = (Inl e, w)
          \<and> e \<in> {VerificationFailed,
                  NotEnoughConfirmations (confirmations att) (confirmationsRequiredOf lang env),
                  HashOrTimestampInvalid}"
      by blast
  qed
  have reached: "snd (runRewardFlow lang eth env fs w) \<noteq> w \<longrightarrow>
        (\<exists>att. checkAttestation lang eth env fs = Inr att
            \<and> verificationPassed att = Some True
            \<and> confirmed att = Some True
            \<and> \<not> js_less (jsInt (confirmations att)) (confirmationsRequiredOf lang env)
            \<and> attPayloadHashValid att = Some True
            \<and> timestampValid att = Some True)"
  proof
    assume "snd (runRewardFlow lang eth env fs w) \<noteq> w"
    then obtain p where "prepareReward lang eth env fs = Inr p"
      using runRewardFlow_changed by blast
    from prepareReward_Inr [OF this]
    have "checkAttestation lang eth env fs = Inr (prepAttestation p)"
      and "rewardGate (prepAttestation p) (confirmationsRequiredOf lang env) = Inr ()"
      by simp_all
    then show "\<exists>att. checkAttestation lang eth env fs = Inr att
            \<and> verificationPassed att = Some True
            \<and> confirmed att = Some True
            \<and> \<not> js_less (jsInt (confirmations att)) (confirmationsRequiredOf lang env)
            \<and> attPayloadHashValid att = Some True
            \<and> timestampValid att = Some True"
      by (simp only: rewardGate_Inr_iff) blast
  qed
  show ?thesis by (rule conjI [OF blocked reached])
qed

theorem no_reward_without_verification_witness:
  "checkAttestation sampleJs (sampleEthers\<lparr>getBlockNumber := 105\<rparr>)
       (sampleEnv(''DRY_RUN'' \<mapsto> ''0'')) sampleFiles = Inr staleAttestation
   \<and> confirmed staleAttestation \<noteq> Some True
   \<and> runRewardFlow sampleJs (sampleEthers\<lparr>getBlockNumber := 105\<rparr>)
       (sampleEnv(''DRY_RUN'' \<mapsto> ''0'')) sampleFiles sampleChain
     = (Inl (NotEnoughConfirmations 6 (Fin 12)), sampleChain)
   \<and> snd (runRewardFlow sampleJs sampleEthers (sampleEnv(''DRY_RUN'' \<mapsto> ''0'')) sampleFiles sampleChain)
       \<noteq> sampleChain
   \<and> map_sum id confirmed
         (checkAttestation sampleJs sampleEthers (sampleEnv(''DRY_RUN'' \<mapsto> ''0'')) sampleFiles)
       = Inr (Some True)"
proof -
  let ?eth = "sampleEthers\<lparr>getBlockNumber := 105\<rparr>"
  let ?env = "sampleEnv(''DRY_RUN'' \<mapsto> ''0'')"
  have run: "checkAttestation sampleJs ?eth ?env sampleFiles = Inr staleAttestation"
    by (simp add: sample_defs eval_defs staleAttestation_def)
  have bad: "confirmed staleAttestation \<noteq> Some True"
    by (simp add: staleAttestation_def)
  have req: "confirmationsRequiredOf sampleJs ?env = Fin 12"
    by (simp add: sample_defs eval_defs)
  have hyp: "checkAttestation sampleJs ?eth ?env sampleFiles = Inr staleAttestation
      \<and> (verificationPassed staleAttestation \<noteq> Some True
         \<or> confirmed staleAttestation \<noteq> Some True
         \<or> js_less (jsInt (confirmations staleAttestation)) (confirmationsRequiredOf sampleJs ?env)
         \<or> attPayloadHashValid staleAttestation \<noteq> Some True
         \<or> timestampValid staleAttestation \<noteq> Some True)"
    using run bad by simp
  from no_reward_without_verification [of sampleJs ?eth ?env sampleFiles staleAttestation sampleChain,
         THEN conjunct1, THEN mp, OF hyp]
  obtain e where e: "runRewardFlow sampleJs ?eth ?env sampleFiles sampleChain = (Inl e, sampleChain)"
    and "e \<in> {VerificationFailed,
              NotEnoughConfirmations (confirmations staleAttestation) (confirmationsRequiredOf sampleJs ?env),
              HashOrTimestampInvalid}"
    by blast
  have "fst (runRewardFlow sampleJs ?eth ?env sampleFiles sampleChain) = Inl (NotEnoughConfirmations 6 (Fin 12))"
    by (simp add: sample_defs eval_defs)
  with e have blocked: "runRewardFlow sampleJs ?eth ?env sampleFiles sampleChain
     = (Inl (NotEnoughConfirmations 6 (Fin 12)), sampleChain)"
    by simp
  have "submitted (snd (runRewardFlow sampleJs sampleEthers ?env sampleFiles sampleChain))
          \<noteq> submitted sampleChain"
    by (simp add: sample_defs eval_defs)
  then have changed: "snd (runRewardFlow sampleJs sampleEthers ?env sampleFiles sampleChain) \<noteq> sampleChain"
    by auto
  from no_reward_without_verification [of sampleJs sampleEthers ?env sampleFiles _ sampleChain,
         THEN conjunct2, THEN mp, OF changed]
  obtain att where "checkAttestation sampleJs sampleEthers ?env sampleFiles = Inr att"
    and "confirmed att = Some True"
    by blast
  then have passed: "map_sum id confirmed (checkAttestation sampleJs sampleEthers ?env sampleFiles)
       = Inr (Some True)"
    by simp
  show ?thesis
    by (rule conjI [OF run conjI [OF bad conjI [OF blocked conjI [OF changed passed]]]])
qed

text \<open>
  C6. The flow is a dry run unless \<open>DRY_RUN\<close> is exactly the text \<open>0\<close>: unset, empty
  or any other value gives a dry run. A dry run leaves the ledger state as it was and
  submits nothing, whatever its outcome; when it succeeds, its outcome carries the call data
  that \<open>encodeFunctionData\<close> built, the gas estimate for that call and the fee, and a
  successful run is marked as a dry run exactly when \<open>DRY_RUN\<close> is not \<open>0\<close>.
\<close>

theorem dry_run_changes_nothing:
  "(dryRunFlag env \<longleftrightarrow> env ''DRY_RUN'' \<noteq> Some ''0'')
   \<and> (env ''DRY_RUN'' \<noteq> Some ''0'' \<longrightarrow>
        snd (runRewardFlow lang eth env fs w) = w
      \<and> (\<forall>out. fst (runRewardFlow lang eth env fs w) = Inr out \<longrightarrow>
            (\<exists>p. prepareReward lang eth env fs = Inr p
               \<and> out = DryRunOutcome (prepAttestation p) (prepEstimatedGas p)
                         (case maxFeePerGas (getFeeData eth) of None \<Rightarrow> 0 | Some f \<Rightarrow> f)
                         (prepRewardContractAddress p) (prepFunctionName p) (prepCalldata p)
               \<and> encodeFunctionData eth (prepFunctionAbi p) (prepFunctionName p)
                    (prepFunctionArgs p) = Some (prepCalldata p)
               \<and> prepEstimatedGas p =
                    estimateGas eth (prepRewardContractAddress p) (prepEstimateFrom p)
                      (prepCalldata p))))
   \<and> (\<forall>out. fst (runRewardFlow lang eth env fs w) = Inr out \<longrightarrow>
         (dryRunOf out \<longleftrightarrow> env ''DRY_RUN'' \<noteq> Some ''0''))"
proof -
  have flag: "dryRunFlag env \<longleftrightarrow> env ''DRY_RUN'' \<noteq> Some ''0''"
    by (simp add: dryRunFlag_def)
  have dry: "env ''DRY_RUN'' \<noteq> Some ''0'' \<longrightarrow>
        snd (runRewardFlow lang eth env fs w) = w
      \<and> (\<forall>out. fst (runRewardFlow lang eth env fs w) = Inr out \<longrightarrow>
            (\<exists>p. prepareReward lang eth env fs = Inr p
               \<and> out = DryRunOutcome (prepAttestation p) (prepEstimatedGas p)
                         (case maxFeePerGas (getFeeData eth) of None \<Rightarrow> 0 | Some f \<Rightarrow> f)
                         (prepRewardContractAddress p) (prepFunctionName p) (prepCalldata p)
               \<and> encodeFunctionData eth (prepFunctionAbi p) (prepFunctionName p)
                    (prepFunctionArgs p) = Some (prepCalldata p)
               \<and> prepEstimatedGas p =
                    estimateGas eth (prepRewardContractAddress p) (prepEstimateFrom p)
                      (prepCalldata p)))"
  proof
    assume "env ''DRY_RUN'' \<noteq> Some ''0''"
    then have d: "dryRunFlag env" by (simp add: dryRunFlag_def)
    show "snd (runRewardFlow lang eth env fs w) = w
      \<and> (\<forall>out. fst (runRewardFlow lang eth env fs w) = Inr out \<longrightarrow>
            (\<exists>p. prepareReward lang eth env fs = Inr p
               \<and> out = DryRunOutcome (prepAttestation p) (prepEstimatedGas p)
                         (case maxFeePerGas (getFeeData eth) of None \<Rightarrow> 0 | Some f \<Rightarrow> f)
                         (prepRewardContractAddress p) (prepFunctionName p) (prepCalldata p)
               \<and> encodeFunctionData eth (prepFunctionAbi p) (prepFunctionName p)
                    (prepFunctionArgs p) = Some (prepCalldata p)
               \<and> prepEstimatedGas p =
                    estimateGas eth (prepRewardContractAddress p) (prepEstimateFrom p)
                      (prepCalldata p)))"
    proof (cases "prepareReward lang eth env fs")
      case (Inl e)
      then show ?thesis by (simp add: runRewardFlow_def)
    next
      case (Inr p)
      from prepareReward_Inr [OF Inr] have
        enc: "encodeFunctionData eth (prepFunctionAbi p) (prepFunctionName p)
                (prepFunctionArgs p) = Some (prepCalldata p)" and
        gas: "prepEstimatedGas p =
                estimateGas eth (prepRewardContractAddress p) (prepEstimateFrom p) (prepCalldata p)" and
        fee: "prepFeeData p = getFeeData eth"
        by simp_all
      have run: "runRewardFlow lang eth env fs w =
              (Inr (DryRunOutcome (prepAttestation p) (prepEstimatedGas p)
                      (case maxFeePerGas (getFeeData eth) of None \<Rightarrow> 0 | Some f \<Rightarrow> f)
                      (prepRewardContractAddress p) (prepFunctionName p) (prepCalldata p)), w)"
        using Inr d fee by (simp add: runRewardFlow_def finishReward_dry)
      show ?thesis
        using Inr enc gas by (simp add: run)
    qed
  qed
  have mode: "\<forall>out. fst (runRewardFlow lang eth env fs w) = Inr out \<longrightarrow>
         (dryRunOf out \<longleftrightarrow> env ''DRY_RUN'' \<noteq> Some ''0'')"
  proof (intro allI impI)
    fix out assume out: "fst (runRewardFlow lang eth env fs w) = Inr out"
    then obtain p where p: "prepareReward lang eth env fs = Inr p"
      by (cases "prepareReward lang eth env fs") (auto simp: runRewardFlow_def)
    with out have f: "fst (finishReward lang eth env p w) = Inr out"
      by (simp add: runRewardFlow_def)
    show "dryRunOf out \<longleftrightarrow> env ''DRY_RUN'' \<noteq> Some ''0''"
    proof (cases "dryRunFlag env")
      case True
      with f show ?thesis by (auto simp: finishReward_dry dryRunFlag_def)
    next
      case False
      from finishReward_not_dry [OF False f] False show ?thesis
        by (simp add: dryRunFlag_def)
    qed
  qed
  show ?thesis by (rule conjI [OF flag conjI [OF dry mode]])
qed

theorem dry_run_changes_nothing_witness:
  "sampleEnv ''DRY_RUN'' \<noteq> Some ''0''
   \<and> snd (runRewardFlow sampleJs sampleEthers sampleEnv sampleFiles sampleChain) = sampleChain
   \<and> map_sum id dryRunOf (fst (runRewardFlow sampleJs sampleEthers sampleEnv sampleFiles sampleChain))
       = Inr True
   \<and> (sampleEnv(''DRY_RUN'' \<mapsto> ''false'')) ''DRY_RUN'' \<noteq> Some ''0''
   \<and> snd (runRewardFlow sampleJs sampleEthers (sampleEnv(''DRY_RUN'' \<mapsto> ''false'')) sampleFiles rewardedChain)
       = rewardedChain"
proof -
  have h1: "sampleEnv ''DRY_RUN'' \<noteq> Some ''0''" by (simp add: sampleEnv_def)
  have h2: "(sampleEnv(''DRY_RUN'' \<mapsto> ''false'')) ''DRY_RUN'' \<noteq> Some ''0''" by simp
  note a = dry_run_changes_nothing [of sampleEnv sampleJs sampleEthers sampleFiles sampleChain,
             THEN conjunct2, THEN conjunct1, THEN mp, OF h1]
  note b = dry_run_changes_nothing [of "sampleEnv(''DRY_RUN'' \<mapsto> ''false'')" sampleJs sampleEthers
             sampleFiles rewardedChain, THEN conjunct2, THEN conjunct1, THEN mp, OF h2]
  have ok: "\<not> isl (fst (runRewardFlow sampleJs sampleEthers sampleEnv sampleFiles sampleChain))"
    by (simp add: sample_defs eval_defs)
  then obtain out where out: "fst (runRewardFlow sampleJs sampleEthers sampleEnv sampleFiles sampleChain) = Inr out"
    by (cases "fst (runRewardFlow sampleJs sampleEthers sampleEnv sampleFiles sampleChain)") auto
  from dry_run_changes_nothing [of sampleEnv sampleJs sampleEthers sampleFiles sampleChain,
         THEN conjunct2, THEN conjunct2, THEN spec, THEN mp, OF out] h1
  have "dryRunOf out" by simp
  with out have c: "map_sum id dryRunOf (fst (runRewardFlow sampleJs sampleEthers sampleEnv sampleFiles sampleChain))
       = Inr True"
    by simp
  show ?thesis
    by (rule conjI [OF h1 conjI [OF a [THEN conjunct1] conjI [OF c conjI [OF h2 b [THEN conjunct1]]]]])
qed

text \<open>
  C4, as the code has it. The proof-validity check calls \<open>verifyJsonApi\<close> first. When
  that call returns, its value is the verdict, also when it is a logical false, and
  \<open>verifyWeb2Json\<close> is not called. When it throws, whatever the error, \<open>verifyWeb2Json\<close>
  is called: its value, if it returns, is the verdict; if it throws too, the error of the
  first call is rethrown and no attestation is returned.
\<close>

theorem proof_validity_fallback:
  "(verifyJsonApi eth = Inr b \<longrightarrow>
      verifyProof eth = (Inr (b, ''verifyJsonApi''), [''verifyJsonApi'']))
   \<and> (verifyJsonApi eth = Inl err \<and> verifyWeb2Json eth = Inr b \<longrightarrow>
        verifyProof eth = (Inr (b, ''verifyWeb2Json''), [''verifyJsonApi'', ''verifyWeb2Json'']))
   \<and> (verifyJsonApi eth = Inl err \<and> verifyWeb2Json eth = Inl err' \<longrightarrow>
        verifyProof eth = (Inl (VerifyCallThrew err), [''verifyJsonApi'', ''verifyWeb2Json''])
      \<and> checkAttestation lang eth env fs \<noteq> Inr a)
   \<and> (checkAttestation lang eth env fs = Inr a \<longrightarrow>
        (verificationFunction a = ''verifyJsonApi''
           \<and> (\<exists>v. verifyJsonApi eth = Inr v \<and> verificationPassed a = Some v))
      \<or> (verificationFunction a = ''verifyWeb2Json''
           \<and> (\<exists>e v. verifyJsonApi eth = Inl e \<and> verifyWeb2Json eth = Inr v
                   \<and> verificationPassed a = Some v)))"
proof -
  have primary: "verifyJsonApi eth = Inr b \<longrightarrow>
      verifyProof eth = (Inr (b, ''verifyJsonApi''), [''verifyJsonApi''])"
    by (simp add: verifyProof_def)
  have secondary: "verifyJsonApi eth = Inl err \<and> verifyWeb2Json eth = Inr b \<longrightarrow>
        verifyProof eth = (Inr (b, ''verifyWeb2Json''), [''verifyJsonApi'', ''verifyWeb2Json''])"
    by (simp add: verifyProof_def)
  have field: "(verificationFunction a = ''verifyJsonApi''
           \<and> (\<exists>v. verifyJsonApi eth = Inr v \<and> verificationPassed a = Some v))
      \<or> (verificationFunction a = ''verifyWeb2Json''
           \<and> (\<exists>e v. verifyJsonApi eth = Inl e \<and> verifyWeb2Json eth = Inr v
                   \<and> verificationPassed a = Some v))"
    if ok: "checkAttestation lang eth env fs = Inr a"
    using ok
  proof (cases rule: checkAttestation_fields)
    case (fields hash rcpt lo u passed fnName ts)
    from fields(4) have
      "(fnName = ''verifyJsonApi'' \<and> verifyJsonApi eth = Inr passed)
       \<or> (fnName = ''verifyWeb2Json'' \<and> (\<exists>e. verifyJsonApi eth = Inl e) \<and> verifyWeb2Json eth = Inr passed)"
      by (auto simp: verifyProof_def split: sum.splits)
    with fields(11,12) show ?thesis by auto
  qed
  have both: "verifyJsonApi eth = Inl err \<and> verifyWeb2Json eth = Inl err' \<longrightarrow>
        verifyProof eth = (Inl (VerifyCallThrew err), [''verifyJsonApi'', ''verifyWeb2Json''])
      \<and> checkAttestation lang eth env fs \<noteq> Inr a"
  proof (intro impI, elim conjE)
    assume p: "verifyJsonApi eth = Inl err" and s: "verifyWeb2Json eth = Inl err'"
    have v: "verifyProof eth = (Inl (VerifyCallThrew err), [''verifyJsonApi'', ''verifyWeb2Json''])"
      using p s by (simp add: verifyProof_def)
    have "checkAttestation lang eth env fs \<noteq> Inr a"
    proof
      assume "checkAttestation lang eth env fs = Inr a"
      from field [OF this] p s show False by auto
    qed
    with v show "verifyProof eth = (Inl (VerifyCallThrew err), [''verifyJsonApi'', ''verifyWeb2Json''])
      \<and> checkAttestation lang eth env fs \<noteq> Inr a"
      by simp
  qed
  have field': "checkAttestation lang eth env fs = Inr a \<longrightarrow>
        (verificationFunction a = ''verifyJsonApi''
           \<and> (\<exists>v. verifyJsonApi eth = Inr v \<and> verificationPassed a = Some v))
      \<or> (verificationFunction a = ''verifyWeb2Json''
           \<and> (\<exists>e v. verifyJsonApi eth = Inl e \<and> verifyWeb2Json eth = Inr v
                   \<and> verificationPassed a = Some v))"
    using field by blast
  show ?thesis by (rule conjI [OF primary conjI [OF secondary conjI [OF both field']]])
qed

theorem proof_validity_fallback_witness:
  "verifyProof (sampleEthers\<lparr>verifyJsonApi := Inr False\<rparr>)
     = (Inr (False, ''verifyJsonApi''), [''verifyJsonApi''])
   \<and> verifyProof (sampleEthers\<lparr>verifyJsonApi := Inl DecodeMismatch\<rparr>)
     = (Inr (True, ''verifyWeb2Json''), [''verifyJsonApi'', ''verifyWeb2Json''])
   \<and> verifyProof (sampleEthers\<lparr>verifyJsonApi := Inl CallReverted, verifyWeb2Json := Inl NetworkError\<rparr>)
     = (Inl (VerifyCallThrew CallReverted), [''verifyJsonApi'', ''verifyWeb2Json''])"
proof -
  have h1: "verifyJsonApi (sampleEthers\<lparr>verifyJsonApi := Inr False\<rparr>) = Inr False"
    by simp
  have h2: "verifyJsonApi (sampleEthers\<lparr>verifyJsonApi := Inl DecodeMismatch\<rparr>) = Inl DecodeMismatch
     \<and> verifyWeb2Json (sampleEthers\<lparr>verifyJsonApi := Inl DecodeMismatch\<rparr>) = Inr True"
    by (simp add: sampleEthers_def)
  have h3: "verifyJsonApi (sampleEthers\<lparr>verifyJsonApi := Inl CallReverted, verifyWeb2Json := Inl NetworkError\<rparr>)
       = Inl CallReverted
     \<and> verifyWeb2Json (sampleEthers\<lparr>verifyJsonApi := Inl CallReverted, verifyWeb2Json := Inl NetworkError\<rparr>)
       = Inl NetworkError"
    by simp
  note a = proof_validity_fallback [THEN conjunct1, THEN mp, OF h1]
  note b = proof_validity_fallback [THEN conjunct2, THEN conjunct1, THEN mp, OF h2]
  note c = proof_validity_fallback [THEN conjunct2, THEN conjunct2, THEN conjunct1, THEN mp, OF h3,
             THEN conjunct1]
  show ?thesis by (rule conjI [OF a conjI [OF b c]])
qed

text \<open>
  C4 as stated does not hold: a network error of the first call is not rethrown. The
  second call is made, and its answer becomes the verdict.
\<close>

theorem fallback_on_any_error_counterexample:
  "verifyJsonApi (sampleEthers\<lparr>verifyJsonApi := Inl NetworkError\<rparr>) = Inl NetworkError
   \<and> NetworkError \<noteq> DecodeMismatch
   \<and> verifyProof (sampleEthers\<lparr>verifyJsonApi := Inl NetworkError\<rparr>)
       = (Inr (True, ''verifyWeb2Json''), [''verifyJsonApi'', ''verifyWeb2Json''])
   \<and> map_sum id verificationFunction
         (checkAttestation sampleJs (sampleEthers\<lparr>verifyJsonApi := Inl NetworkError\<rparr>)
            sampleEnv sampleFiles)
       = Inr ''verifyWeb2Json''
   \<and> map_sum id verificationPassed
         (checkAttestation sampleJs (sampleEthers\<lparr>verifyJsonApi := Inl NetworkError\<rparr>)
            sampleEnv sampleFiles)
       = Inr (Some True)"
  by (simp add: sample_defs eval_defs)

text \<open>
  C3, as the code has it. In the gate of \<open>runRewardFlow\<close>, a \<open>null\<close> in any of the
  four verdict fields makes the flow fail: the gate lets the flow go on exactly when all
  four are true and the confirmations are not below the requirement, and every successful
  run has passed it. Inside the payload-integrity evaluator, a comparison that was not made
  (\<open>null\<close>) counts as a pass: the verdict is true unless a comparison was made and
  disagreed, and in particular when there is no API response to recompute the digest from.
\<close>

theorem null_verdict_blocks_gate:
  "(verificationPassed att = None \<or> confirmed att = None
      \<or> attPayloadHashValid att = None \<or> timestampValid att = None \<longrightarrow>
      isl (rewardGate att required))
   \<and> (rewardGate att required = Inr () \<longleftrightarrow>
        verificationPassed att = Some True \<and> confirmed att = Some True
      \<and> \<not> js_less (jsInt (confirmations att)) required
      \<and> attPayloadHashValid att = Some True \<and> timestampValid att = Some True)
   \<and> (fst (runRewardFlow lang eth env fs w) = Inr out \<longrightarrow>
        (\<exists>a. checkAttestation lang eth env fs = Inr a
            \<and> rewardGate a (confirmationsRequiredOf lang env) = Inr ()))
   \<and> (micMatchesExpected (validatePayloadHash lang api expected recorded) \<noteq> Some False
        \<and> micMatchesSubmission (validatePayloadHash lang api expected recorded) \<noteq> Some False \<longrightarrow>
        payloadHashValid (validatePayloadHash lang api expected recorded))
   \<and> (api = None \<longrightarrow>
        micMatchesExpected (validatePayloadHash lang api expected recorded) = None
      \<and> micMatchesSubmission (validatePayloadHash lang api expected recorded) = None
      \<and> payloadHashValid (validatePayloadHash lang api expected recorded))"
proof -
  have null: "verificationPassed att = None \<or> confirmed att = None
      \<or> attPayloadHashValid att = None \<or> timestampValid att = None \<longrightarrow>
      isl (rewardGate att required)"
    by (auto simp: rewardGate_def truthy_def)
  have gate: "rewardGate att required = Inr () \<longleftrightarrow>
        verificationPassed att = Some True \<and> confirmed att = Some True
      \<and> \<not> js_less (jsInt (confirmations att)) required
      \<and> attPayloadHashValid att = Some True \<and> timestampValid att = Some True"
    by (rule rewardGate_Inr_iff)
  have flow: "fst (runRewardFlow lang eth env fs w) = Inr out \<longrightarrow>
        (\<exists>a. checkAttestation lang eth env fs = Inr a
            \<and> rewardGate a (confirmationsRequiredOf lang env) = Inr ())"
  proof
    assume "fst (runRewardFlow lang eth env fs w) = Inr out"
    then obtain p where "prepareReward lang eth env fs = Inr p"
      by (cases "prepareReward lang eth env fs") (auto simp: runRewardFlow_def)
    from prepareReward_Inr [OF this]
    show "\<exists>a. checkAttestation lang eth env fs = Inr a
            \<and> rewardGate a (confirmationsRequiredOf lang env) = Inr ()"
      by blast
  qed
  have pass: "micMatchesExpected (validatePayloadHash lang api expected recorded) \<noteq> Some False
        \<and> micMatchesSubmission (validatePayloadHash lang api expected recorded) \<noteq> Some False \<longrightarrow>
        payloadHashValid (validatePayloadHash lang api expected recorded)"
    by (simp add: validatePayloadHash_def Let_def)
  have missing: "api = None \<longrightarrow>
        micMatchesExpected (validatePayloadHash lang api expected recorded) = None
      \<and> micMatchesSubmission (validatePayloadHash lang api expected recorded) = None
      \<and> payloadHashValid (validatePayloadHash lang api expected recorded)"
    by (simp add: validatePayloadHash_def)
  show ?thesis
    by (rule conjI [OF null conjI [OF gate conjI [OF flow conjI [OF pass missing]]]])
qed

theorem null_verdict_blocks_gate_witness:
  "isl (rewardGate (staleAttestation\<lparr>confirmed := Some True, timestampValid := None\<rparr>) (Fin 3))
   \<and> rewardGate (staleAttestation\<lparr>confirmed := Some True\<rparr>) (Fin 3) = Inr ()
   \<and> payloadHashValid (validatePayloadHash sampleJs None (Some ''0xabc'') (Some ''0xdef''))"
proof -
  have h1: "verificationPassed (staleAttestation\<lparr>confirmed := Some True, timestampValid := None\<rparr>) = None
      \<or> confirmed (staleAttestation\<lparr>confirmed := Some True, timestampValid := None\<rparr>) = None
      \<or> attPayloadHashValid (staleAttestation\<lparr>confirmed := Some True, timestampValid := None\<rparr>) = None
      \<or> timestampValid (staleAttestation\<lparr>confirmed := Some True, timestampValid := None\<rparr>) = None"
    by simp
  have h2: "verificationPassed (staleAttestation\<lparr>confirmed := Some True\<rparr>) = Some True
      \<and> confirmed (staleAttestation\<lparr>confirmed := Some True\<rparr>) = Some True
      \<and> \<not> js_less (jsInt (confirmations (staleAttestation\<lparr>confirmed := Some True\<rparr>))) (Fin 3)
      \<and> attPayloadHashValid (staleAttestation\<lparr>confirmed := Some True\<rparr>) = Some True
      \<and> timestampValid (staleAttestation\<lparr>confirmed := Some True\<rparr>) = Some True"
    by (simp add: staleAttestation_def jsInt_def)
  have h3: "(None :: string option) = None" by simp
  note a = null_verdict_blocks_gate [THEN conjunct1, THEN mp, OF h1]
  note b = null_verdict_blocks_gate [THEN conjunct2, THEN conjunct1, THEN iffD2, OF h2]
  note c = null_verdict_blocks_gate [where lang = sampleJs and api = None
               and expected = "Some ''0xabc''" and recorded = "Some ''0xdef''",
             THEN conjunct2, THEN conjunct2, THEN conjunct2, THEN conjunct2, THEN mp, OF h3,
             THEN conjunct2, THEN conjunct2]
  show ?thesis by (rule conjI [OF a conjI [OF b c]])
qed

text \<open>
  C3 as stated does not hold: with an expected digest configured and no API response file,
  both digest comparisons are indeterminate (\<open>null\<close>), the payload-integrity verdict is
  true all the same, and the flow in execute mode records the reward.
\<close>

theorem indeterminate_digest_passes_counterexample:
  "computedMic (validatePayloadHash sampleJs None (Some ''0xabc'') None) = None
   \<and> micMatchesExpected (validatePayloadHash sampleJs None (Some ''0xabc'') None) = None
   \<and> micMatchesSubmission (validatePayloadHash sampleJs None (Some ''0xabc'') None) = None
   \<and> payloadHashValid (validatePayloadHash sampleJs None (Some ''0xabc'') None)
   \<and> map_sum id attPayloadHashValid
         (checkAttestation sampleJs sampleEthers
            (sampleEnv(''DRY_RUN'' \<mapsto> ''0'', ''EXPECTED_MIC'' \<mapsto> ''0xabc''))
            (sampleFiles\<lparr>apiResponse := None\<rparr>))
       = Inr (Some True)
   \<and> map_sum id dryRunOf
         (fst (runRewardFlow sampleJs sampleEthers
            (sampleEnv(''DRY_RUN'' \<mapsto> ''0'', ''EXPECTED_MIC'' \<mapsto> ''0xabc''))
            (sampleFiles\<lparr>apiResponse := None\<rparr>) sampleChain))
       = Inr False
   \<and> length (recordsFor 5 (ledger (snd (runRewardFlow sampleJs sampleEthers
            (sampleEnv(''DRY_RUN'' \<mapsto> ''0'', ''EXPECTED_MIC'' \<mapsto> ''0xabc''))
            (sampleFiles\<lparr>apiResponse := None\<rparr>) sampleChain)))) = 1"
  by (simp add: sample_defs eval_defs recordsFor_def)

text \<open>
  C5, as the code has it. The flow makes no query of its own for a record of the
  attestation hash; what happens when one exists depends on the mode. Take a run that has
  passed verification and resolved its configuration, with \<open>DRY_RUN\<close> set to \<open>0\<close>.
  With \<open>SIGNER_MODE\<close> \<open>metamask\<close> and no \<open>REWARD_TX_HASH\<close>, the flow submits nothing,
  leaves the ledger as it was and returns successfully with the transaction request,
  whatever the ledger holds. With any other signer mode, \<open>FLARE_SIGNER_KEY\<close> set and
  accepted as a wallet, a ledger whose reward contract is the \<open>RewardExecutor\<close> and call
  data for \<open>executeReward\<close> on hash \<open>h\<close>: if a record for \<open>h\<close> exists, the gas estimation
  that precedes the broadcast reverts, so the flow fails with the ledger's rejection (already
  executed, or not owner when the signer is not the owner), nothing is broadcast and the
  ledger is as it was; if none exists and the signer is the owner, the flow broadcasts the
  call once and the ledger's new state is that of the contract's \<open>executeReward\<close>.
\<close>

theorem existing_record_by_mode:
  "(prepareReward lang eth env fs = Inr p
      \<and> env ''DRY_RUN'' = Some ''0''
      \<and> signerModeOf env = ''metamask''
      \<and> optionalEnv env ''REWARD_TX_HASH'' = None \<longrightarrow>
      runRewardFlow lang eth env fs w
        = (Inr (ExecuteOutcome (prepAttestation p) None None), w))
   \<and> (prepareReward lang eth env fs = Inr p
      \<and> env ''DRY_RUN'' = Some ''0''
      \<and> signerModeOf env \<noteq> ''metamask''
      \<and> mustEnv env ''FLARE_SIGNER_KEY'' = Inr key
      \<and> Wallet eth key = Some signer
      \<and> signerEstimateGas eth = rewardExecutorEstimate addressOf gas
      \<and> sendTransaction eth = rewardExecutorLedger addressOf minedAs
      \<and> prepCalldata p = ExecuteReward h ph k a q \<longrightarrow>
        (executedAttestations (ledger w) h \<longrightarrow>
           runRewardFlow lang eth env fs w
             = (Inl (LedgerRejected
                      (if addressOf signer \<noteq> owner (ledger w) then ''RewardExecutor: not owner''
                       else ''RewardExecutor: already executed'')), w))
      \<and> (\<not> executedAttestations (ledger w) h \<and> addressOf signer = owner (ledger w) \<longrightarrow>
           fst (runRewardFlow lang eth env fs w)
             = Inr (ExecuteOutcome (prepAttestation p) (Some (fst minedAs)) (Some (snd minedAs)))
         \<and> submitted (snd (runRewardFlow lang eth env fs w))
             = submitted w @ [(signer, prepRewardContractAddress p, ExecuteReward h ph k a q)]
         \<and> executeReward (owner (ledger w)) h ph k a q (ledger w)
             = Inr (ledger (snd (runRewardFlow lang eth env fs w)))))"
proof -
  have metamask: "prepareReward lang eth env fs = Inr p
      \<and> env ''DRY_RUN'' = Some ''0''
      \<and> signerModeOf env = ''metamask''
      \<and> optionalEnv env ''REWARD_TX_HASH'' = None \<longrightarrow>
      runRewardFlow lang eth env fs w
        = (Inr (ExecuteOutcome (prepAttestation p) None None), w)"
    by (simp add: runRewardFlow_def finishReward_def dryRunFlag_def)
  have key: "prepareReward lang eth env fs = Inr p
      \<and> env ''DRY_RUN'' = Some ''0''
      \<and> signerModeOf env \<noteq> ''metamask''
      \<and> mustEnv env ''FLARE_SIGNER_KEY'' = Inr key
      \<and> Wallet eth key = Some signer
      \<and> signerEstimateGas eth = rewardExecutorEstimate addressOf gas
      \<and> sendTransaction eth = rewardExecutorLedger addressOf minedAs
      \<and> prepCalldata p = ExecuteReward h ph k a q \<longrightarrow>
        (executedAttestations (ledger w) h \<longrightarrow>
           runRewardFlow lang eth env fs w
             = (Inl (LedgerRejected
                      (if addressOf signer \<noteq> owner (ledger w) then ''RewardExecutor: not owner''
                       else ''RewardExecutor: already executed'')), w))
      \<and> (\<not> executedAttestations (ledger w) h \<and> addressOf signer = owner (ledger w) \<longrightarrow>
           fst (runRewardFlow lang eth env fs w)
             = Inr (ExecuteOutcome (prepAttestation p) (Some (fst minedAs)) (Some (snd minedAs)))
         \<and> submitted (snd (runRewardFlow lang eth env fs w))
             = submitted w @ [(signer, prepRewardContractAddress p, ExecuteReward h ph k a q)]
         \<and> executeReward (owner (ledger w)) h ph k a q (ledger w)
             = Inr (ledger (snd (runRewardFlow lang eth env fs w))))"
  proof (intro impI, elim conjE)
    assume p: "prepareReward lang eth env fs = Inr p"
      and dry: "env ''DRY_RUN'' = Some ''0''"
      and mode: "signerModeOf env \<noteq> ''metamask''"
      and key: "mustEnv env ''FLARE_SIGNER_KEY'' = Inr key"
      and wallet: "Wallet eth key = Some signer"
      and est: "signerEstimateGas eth = rewardExecutorEstimate addressOf gas"
      and send: "sendTransaction eth = rewardExecutorLedger addressOf minedAs"
      and data: "prepCalldata p = ExecuteReward h ph k a q"
    have run: "runRewardFlow lang eth env fs w =
        (case rewardExecutorEstimate addressOf gas signer (prepRewardContractAddress p)
                (ExecuteReward h ph k a q) (ledger w) of
           Inl e \<Rightarrow> (Inl e, w)
         | Inr gasLimit \<Rightarrow>
            (case rewardExecutorLedger addressOf minedAs signer (prepRewardContractAddress p)
                    (ExecuteReward h ph k a q) (ledger w) of
               Inl e \<Rightarrow> (Inl e, w\<lparr>submitted := submitted w @
                            [(signer, prepRewardContractAddress p, ExecuteReward h ph k a q)]\<rparr>)
             | Inr ((hash, blockNo), l') \<Rightarrow>
                 (Inr (ExecuteOutcome (prepAttestation p) (Some hash) (Some blockNo)),
                  w\<lparr>submitted := submitted w @
                        [(signer, prepRewardContractAddress p, ExecuteReward h ph k a q)],
                    ledger := l'\<rparr>)))"
      using p dry mode key wallet est send data
      by (simp add: runRewardFlow_def finishReward_def dryRunFlag_def Let_def cong: sum.case_cong)
    have replay: "executedAttestations (ledger w) h \<longrightarrow>
           runRewardFlow lang eth env fs w
             = (Inl (LedgerRejected
                      (if addressOf signer \<noteq> owner (ledger w) then ''RewardExecutor: not owner''
                       else ''RewardExecutor: already executed'')), w)"
      by (simp add: run rewardExecutorEstimate_def executeReward_def)
    have fresh: "\<not> executedAttestations (ledger w) h \<and> addressOf signer = owner (ledger w) \<longrightarrow>
           fst (runRewardFlow lang eth env fs w)
             = Inr (ExecuteOutcome (prepAttestation p) (Some (fst minedAs)) (Some (snd minedAs)))
         \<and> submitted (snd (runRewardFlow lang eth env fs w))
             = submitted w @ [(signer, prepRewardContractAddress p, ExecuteReward h ph k a q)]
         \<and> executeReward (owner (ledger w)) h ph k a q (ledger w)
             = Inr (ledger (snd (runRewardFlow lang eth env fs w)))"
      by (cases minedAs)
         (simp add: run rewardExecutorEstimate_def rewardExecutorLedger_def executeReward_def)
    show "(executedAttestations (ledger w) h \<longrightarrow>
           runRewardFlow lang eth env fs w
             = (Inl (LedgerRejected
                      (if addressOf signer \<noteq> owner (ledger w) then ''RewardExecutor: not owner''
                       else ''RewardExecutor: already executed'')), w))
      \<and> (\<not> executedAttestations (ledger w) h \<and> addressOf signer = owner (ledger w) \<longrightarrow>
           fst (runRewardFlow lang eth env fs w)
             = Inr (ExecuteOutcome (prepAttestation p) (Some (fst minedAs)) (Some (snd minedAs)))
         \<and> submitted (snd (runRewardFlow lang eth env fs w))
             = submitted w @ [(signer, prepRewardContractAddress p, ExecuteReward h ph k a q)]
         \<and> executeReward (owner (ledger w)) h ph k a q (ledger w)
             = Inr (ledger (snd (runRewardFlow lang eth env fs w))))"
      by (rule conjI [OF replay fresh])
  qed
  show ?thesis by (rule conjI [OF metamask key])
qed

theorem existing_record_by_mode_witness:
  "executedAttestations (ledger rewardedChain) 5
   \<and> runRewardFlow sampleJs sampleEthers (sampleEnv(''DRY_RUN'' \<mapsto> ''0'')) sampleFiles
         rewardedChain
       = (Inl (LedgerRejected ''RewardExecutor: already executed''), rewardedChain)
   \<and> \<not> executedAttestations (ledger sampleChain) 5
   \<and> submitted (snd (runRewardFlow sampleJs sampleEthers (sampleEnv(''DRY_RUN'' \<mapsto> ''0''))
                       sampleFiles sampleChain))
       = [(''0x07'', ''0xc0de'', ExecuteReward 5 1 2 3 4)]
   \<and> executeReward 7 5 1 2 3 4 (ledger sampleChain)
       = Inr (ledger (snd (runRewardFlow sampleJs sampleEthers (sampleEnv(''DRY_RUN'' \<mapsto> ''0''))
                             sampleFiles sampleChain)))
   \<and> map_sum id dryRunOf
         (fst (runRewardFlow sampleJs rewardedEthers
                 (sampleEnv(''DRY_RUN'' \<mapsto> ''0'', ''SIGNER_MODE'' \<mapsto> ''metamask''))
                 sampleFiles rewardedChain))
       = Inr False
   \<and> snd (runRewardFlow sampleJs rewardedEthers
            (sampleEnv(''DRY_RUN'' \<mapsto> ''0'', ''SIGNER_MODE'' \<mapsto> ''metamask''))
            sampleFiles rewardedChain)
       = rewardedChain"
proof -
  let ?env = "sampleEnv(''DRY_RUN'' \<mapsto> ''0'')"
  let ?menv = "sampleEnv(''DRY_RUN'' \<mapsto> ''0'', ''SIGNER_MODE'' \<mapsto> ''metamask'')"
  let ?addressOf = "\<lambda>a. if a = ''0x07'' then 7 else (9::address)"
  have "\<exists>p. prepareReward sampleJs sampleEthers ?env sampleFiles = Inr p
           \<and> prepCalldata p = ExecuteReward 5 1 2 3 4
           \<and> prepRewardContractAddress p = ''0xc0de''"
    by (simp add: sample_defs eval_defs)
  then obtain p where p: "prepareReward sampleJs sampleEthers ?env sampleFiles = Inr p"
    and data: "prepCalldata p = ExecuteReward 5 1 2 3 4"
    and target: "prepRewardContractAddress p = ''0xc0de''"
    by blast
  have dry: "?env ''DRY_RUN'' = Some ''0''" by simp
  have mode: "signerModeOf ?env \<noteq> ''metamask''"
    by (simp add: sample_defs eval_defs)
  have key: "mustEnv ?env ''FLARE_SIGNER_KEY'' = Inr ''0xkey''"
    by (simp add: sample_defs eval_defs)
  have wallet: "Wallet sampleEthers ''0xkey'' = Some ''0x07''"
    by (simp add: sampleEthers_def)
  have est: "signerEstimateGas sampleEthers = rewardExecutorEstimate ?addressOf 50000"
    by (simp add: sampleEthers_def)
  have send: "sendTransaction sampleEthers = rewardExecutorLedger ?addressOf (''0xbeef'', 121)"
    by (simp add: sampleEthers_def)
  have executed: "executedAttestations (ledger rewardedChain) 5"
    by (simp add: sample_defs executeReward_def)
  have own: "?addressOf ''0x07'' = owner (ledger rewardedChain)"
    by (simp add: sample_defs executeReward_def)
  have unexecuted: "\<not> executedAttestations (ledger sampleChain) 5
      \<and> ?addressOf ''0x07'' = owner (ledger sampleChain)"
    by (simp add: sample_defs)
  have hyp: "prepareReward sampleJs sampleEthers ?env sampleFiles = Inr p
      \<and> ?env ''DRY_RUN'' = Some ''0''
      \<and> signerModeOf ?env \<noteq> ''metamask''
      \<and> mustEnv ?env ''FLARE_SIGNER_KEY'' = Inr ''0xkey''
      \<and> Wallet sampleEthers ''0xkey'' = Some ''0x07''
      \<and> signerEstimateGas sampleEthers = rewardExecutorEstimate ?addressOf 50000
      \<and> sendTransaction sampleEthers = rewardExecutorLedger ?addressOf (''0xbeef'', 121)
      \<and> prepCalldata p = ExecuteReward 5 1 2 3 4"
    using p dry mode key wallet est send data by simp
  note again = existing_record_by_mode [where w = rewardedChain,
                 THEN conjunct2, THEN mp, OF hyp, THEN conjunct1, THEN mp, OF executed]
  have rejected: "runRewardFlow sampleJs sampleEthers ?env sampleFiles rewardedChain
       = (Inl (LedgerRejected ''RewardExecutor: already executed''), rewardedChain)"
    using again own by simp
  note first = existing_record_by_mode [where w = sampleChain,
                 THEN conjunct2, THEN mp, OF hyp, THEN conjunct2, THEN mp, OF unexecuted]
  have sub: "submitted (snd (runRewardFlow sampleJs sampleEthers ?env sampleFiles sampleChain))
       = [(''0x07'', ''0xc0de'', ExecuteReward 5 1 2 3 4)]"
    using first [THEN conjunct2, THEN conjunct1] by (simp add: target sampleChain_def)
  have recorded: "executeReward 7 5 1 2 3 4 (ledger sampleChain)
       = Inr (ledger (snd (runRewardFlow sampleJs sampleEthers ?env sampleFiles sampleChain)))"
    using first [THEN conjunct2, THEN conjunct2] by (simp add: sampleChain_def)
  have "\<exists>p. prepareReward sampleJs rewardedEthers ?menv sampleFiles = Inr p"
    by (simp add: sample_defs eval_defs)
  then obtain m where m: "prepareReward sampleJs rewardedEthers ?menv sampleFiles = Inr m"
    by blast
  have mhyp: "prepareReward sampleJs rewardedEthers ?menv sampleFiles = Inr m
      \<and> ?menv ''DRY_RUN'' = Some ''0''
      \<and> signerModeOf ?menv = ''metamask''
      \<and> optionalEnv ?menv ''REWARD_TX_HASH'' = None"
    using m by (simp add: sample_defs eval_defs)
  note silent = existing_record_by_mode [where w = rewardedChain,
                  THEN conjunct1, THEN mp, OF mhyp]
  have quiet: "map_sum id dryRunOf
         (fst (runRewardFlow sampleJs rewardedEthers ?menv sampleFiles rewardedChain))
       = Inr False"
    by (simp add: silent)
  have kept: "snd (runRewardFlow sampleJs rewardedEthers ?menv sampleFiles rewardedChain)
       = rewardedChain"
    by (simp add: silent)
  show ?thesis
    by (rule conjI [OF executed conjI [OF rejected conjI [OF unexecuted [THEN conjunct1]
          conjI [OF sub conjI [OF recorded conjI [OF quiet kept]]]]]])
qed

text \<open>
  C5 as stated does not hold: on a ledger that already holds the record for attestation 5,
  in execute mode with \<open>SIGNER_MODE\<close> \<open>metamask\<close>, the flow does not report the record.
  Its best-effort gas estimate fails and is swallowed, and it returns successfully with the
  request to send the transaction.
\<close>

theorem existing_record_not_reported_counterexample:
  "executedAttestations (ledger rewardedChain) 5
   \<and> length (recordsFor 5 (ledger rewardedChain)) = 1
   \<and> encodeFunctionData rewardedEthers DEFAULT_REWARD_FUNCTION_ABI ''executeReward'' []
       = Some (ExecuteReward 5 1 2 3 4)
   \<and> estimateGas rewardedEthers ''0xc0de'' None (ExecuteReward 5 1 2 3 4) = None
   \<and> fst (runRewardFlow sampleJs rewardedEthers
            (sampleEnv(''DRY_RUN'' \<mapsto> ''0'', ''SIGNER_MODE'' \<mapsto> ''metamask'')) sampleFiles
            rewardedChain)
       = Inr (ExecuteOutcome sampleAttestation None None)
   \<and> snd (runRewardFlow sampleJs rewardedEthers
            (sampleEnv(''DRY_RUN'' \<mapsto> ''0'', ''SIGNER_MODE'' \<mapsto> ''metamask'')) sampleFiles
            rewardedChain)
       = rewardedChain"
  by (simp add: sample_defs eval_defs recordsFor_def)

end
